theory Spec2Isabelle
  imports Main "HOL-Library.Sublist"
begin

section \<open>The process: output streams, collaborator calls, termination\<close>

text \<open>
  A handler of the dispatcher runs inside one process. What it does to the outside is
  kept in a \<open>world\<close>: the chunks written to standard output and to standard error,
  and the sequence of calls made to external collaborators (local repository lookup,
  hosting API client, editor, external binary). A handler step either yields a value
  or ends the handler: \<open>Exit n\<close> is \<open>os.Exit(n)\<close>, \<open>Return\<close> is a \<open>return\<close>
  statement of the handler (it goes back to its caller, the process is not ended by the
  handler), \<open>Panic\<close> is a Go runtime panic (nil dereference, index out of range). A
  handler that runs to the end of its body yields \<open>Inr ()\<close>.
\<close>

record project =
  Host :: string
  project_String :: string

record releaseAsset =
  DownloadUrl :: string

record release =
  TagName :: string
  TargetCommitish :: string
  release_Name :: string
  Body :: string
  Draft :: bool
  Prerelease :: bool
  HtmlUrl :: string
  ZipballUrl :: string
  TarballUrl :: string
  Assets :: "releaseAsset list"

datatype call =
    LocalRepoC
  | MainProjectC
  | CurrentProjectC
  | CurrentBranchC
  | NewClientC string
  | CommentCharC
  | NewEditorC string
  | EditTitleAndBodyC
  | ReadMsgFromFileC string
  | FetchReleaseC project string
  | CreateReleaseC project release
  | UploadReleaseAssetC release string string
  | NewC
  | ExpandRemoteUrlC string bool
  | SysExecC "string list"

datatype outcome = Exit int | Return | Panic string

record world =
  stdout :: "string list"
  stderr :: "string list"
  trace :: "call list"

type_synonym 'a proc = "world \<Rightarrow> (outcome + 'a) \<times> world"

definition return :: "'a \<Rightarrow> 'a proc" where
  "return x w = (Inr x, w)"

definition bindp :: "'a proc \<Rightarrow> ('a \<Rightarrow> 'b proc) \<Rightarrow> 'b proc" where
  "bindp m f w = (case m w of (Inl out, w') \<Rightarrow> (Inl out, w') | (Inr x, w') \<Rightarrow> f x w')"

definition os_Exit :: "int \<Rightarrow> 'a proc" where
  "os_Exit n w = (Inl (Exit n), w)"

definition handler_return :: "'a proc" where
  "handler_return w = (Inl Return, w)"

definition panic :: "string \<Rightarrow> 'a proc" where
  "panic msg w = (Inl (Panic msg), w)"

definition write_stdout :: "string \<Rightarrow> unit proc" where
  "write_stdout s w = (Inr (), w\<lparr>stdout := stdout w @ [s]\<rparr>)"

definition write_stderr :: "string \<Rightarrow> unit proc" where
  "write_stderr s w = (Inr (), w\<lparr>stderr := stderr w @ [s]\<rparr>)"

definition invoke :: "call \<Rightarrow> unit proc" where
  "invoke c w = (Inr (), w\<lparr>trace := trace w @ [c]\<rparr>)"

text \<open>
  An error value as a handler sees it: \<open>Errorf m\<close> is an error the handler builds
  itself with \<open>fmt.Errorf\<close> about the way it was invoked, \<open>Failed m\<close> is an error that
  an external collaborator returned.
\<close>

datatype error = Errorf string | Failed string

fun error_message :: "error \<Rightarrow> string" where
  "error_message (Errorf m) = m"
| "error_message (Failed m) = m"

text \<open>
  Modelled from the spec: \<open>utils.Check\<close> is not among the source files. The spec's
  error contract (sections 4.3, 6 and 7): on a nil error the handler goes on; any other
  error is printed to standard error and ends the process at once, with status 2 for
  a usage error (the spec names the missing required positional argument) and with
  status 1 for a checked failure of an external collaborator.
\<close>

fun exit_status :: "error \<Rightarrow> int" where
  "exit_status (Errorf m) = 2"
| "exit_status (Failed m) = 1"

definition Check :: "error option \<Rightarrow> unit proc" where
  "Check err = (case err of None \<Rightarrow> return ()
     | Some e \<Rightarrow> bindp (write_stderr (error_message e @ ''\<newline>''))
                  (\<lambda>_. os_Exit (exit_status e)))"

text \<open>
  Go's standard logger (package \<open>log\<close>), as \<open>log.Fatal\<close> uses it. The logger has the
  flags \<open>LstdFlags\<close> and no prefix: \<open>Output\<close> writes to standard error a header with the
  local date and time, \<open>2009/01/23 01:23:23\<close> and a space, then the message, then a line
  feed unless the message already ends with one. \<open>itoa\<close> writes a number in decimal,
  padded with zeros to a width. The clock the logger reads is a parameter.
\<close>

record clock =
  year :: nat
  month :: nat
  day :: nat
  hour :: nat
  minute :: nat
  second :: nat

definition digit :: "nat \<Rightarrow> char" where
  "digit d = ''0123456789'' ! (d mod 10)"

function itoa :: "nat \<Rightarrow> nat \<Rightarrow> string" where
  "itoa i wid = (if 10 \<le> i \<or> 1 < wid then itoa (i div 10) (wid - 1) @ [digit (i mod 10)]
                 else [digit i])"
  by pat_completeness auto
termination
  by (relation "measure (\<lambda>(i, wid). i + wid)") auto

definition formatHeader :: "clock \<Rightarrow> string" where
  "formatHeader t =
     itoa (year t) 4 @ ''/'' @ itoa (month t) 2 @ ''/'' @ itoa (day t) 2 @ '' ''
     @ itoa (hour t) 2 @ '':'' @ itoa (minute t) 2 @ '':'' @ itoa (second t) 2 @ '' ''"

definition log_Output :: "clock \<Rightarrow> string \<Rightarrow> unit proc" where
  "log_Output t s =
     write_stderr (formatHeader t @ s
                   @ (if s = [] \<or> last s \<noteq> CHR 0x0A then ''\<newline>'' else []))"

definition log_Fatal :: "clock \<Rightarrow> string \<Rightarrow> 'a proc" where
  "log_Fatal t msg = bindp (log_Output t msg) (\<lambda>_. os_Exit 1)"

text \<open>
  A call that yields a value and an error, followed by \<open>utils.Check(err)\<close>: the value
  on success, the end of the process on failure.
\<close>

definition checked :: "call \<Rightarrow> string + 'a \<Rightarrow> 'a proc" where
  "checked c r = bindp (invoke c) (\<lambda>_. case r of
       Inl e \<Rightarrow> bindp (Check (Some (Failed e))) (\<lambda>_. panic ''unreachable'')
     | Inr v \<Rightarrow> bindp (Check None) (\<lambda>_. return v))"

section \<open>The argument container\<close>

text \<open>
  Modelled from the spec: the type \<open>Args\<close> and its methods are not among the source
  files. Section 4.1 of the spec: an ordered sequence of tokens with a no-op latch;
  \<open>size\<close> counts the remaining tokens, \<open>first\<close> fails when none remain, \<open>indexOf\<close> gives
  a position or the sentinel -1, \<open>remove\<close> removes and returns the token at an index and
  shifts the later ones (out of range it fails here: \<open>None\<close>), \<open>append\<close> adds tokens at
  the end, \<open>lastParam\<close> is the final token or the empty string, \<open>array\<close> gives the
  sequence. The handlers only see the tokens that remain after the command path, so the
  consumed prefix and its cursor are left out. Indices are Go \<open>int\<close>s.
\<close>

record Args =
  Params :: "string list"
  Noop :: bool

definition Size :: "Args \<Rightarrow> int" where
  "Size a = int (length (Params a))"

definition IsEmpty :: "Args \<Rightarrow> bool" where
  "IsEmpty a = (Params a = [])"

definition First :: "Args \<Rightarrow> string option" where
  "First a = (case Params a of [] \<Rightarrow> None | x # _ \<Rightarrow> Some x)"

fun index_from :: "int \<Rightarrow> string list \<Rightarrow> string \<Rightarrow> int" where
  "index_from i [] t = -1"
| "index_from i (x # xs) t = (if x = t then i else index_from (i + 1) xs t)"

definition IndexOf :: "Args \<Rightarrow> string \<Rightarrow> int" where
  "IndexOf a t = index_from 0 (Params a) t"

definition Remove :: "Args \<Rightarrow> int \<Rightarrow> (string \<times> Args) option" where
  "Remove a i =
     (if 0 \<le> i \<and> i < Size a
      then Some (Params a ! nat i,
                 a\<lparr>Params := take (nat i) (Params a) @ drop (Suc (nat i)) (Params a)\<rparr>)
      else None)"

definition Append :: "Args \<Rightarrow> string list \<Rightarrow> Args" where
  "Append a ts = a\<lparr>Params := Params a @ ts\<rparr>"

definition LastParam :: "Args \<Rightarrow> string" where
  "LastParam a = (if Params a = [] then [] else last (Params a))"

definition Array :: "Args \<Rightarrow> string list" where
  "Array a = Params a"

section \<open>External collaborators\<close>

text \<open>
  The packages \<open>github\<close>, \<open>git\<close> and the message readers are outside the source files.
  What they answer is a parameter of every handler: one field per operation, an error
  message on the left of a sum where the operation can report a checked failure.
\<close>

record env =
  LocalRepo_result :: "string + unit"
  MainProject_result :: "string + project"
  CurrentProject_result :: "string + project"
  CurrentBranch_result :: "string + string"
  CommentChar_result :: string
  renderReleaseTpl :: "string \<Rightarrow> string \<Rightarrow> string \<Rightarrow> string \<Rightarrow> string + string"
  NewEditor_result :: "string \<Rightarrow> string + unit"
  EditTitleAndBody_result :: "string + string \<times> string"
  readMsg :: "string \<Rightarrow> string \<times> string"
  readMsgFromFile_result :: "string \<Rightarrow> string + string \<times> string"
  FetchRelease_result :: "project \<Rightarrow> string \<Rightarrow> string + release"
  CreateRelease_result :: "project \<Rightarrow> release \<Rightarrow> string + release"
  UploadReleaseAsset_result :: "release \<Rightarrow> string \<Rightarrow> string \<Rightarrow> string option"
  ExpandRemoteUrl_result :: "string \<Rightarrow> bool \<Rightarrow> string"
  SysExec_result :: "string list \<Rightarrow> string + int"

text \<open>
  Modelled from the spec: \<open>git.SysExec\<close> is not among the source files. The
  external-execution collaborator runs the underlying binary on the token sequence; the
  process ends with the binary's status unchanged. Only a failure to launch comes back
  to the handler, as an error.
\<close>

definition SysExec :: "env \<Rightarrow> string list \<Rightarrow> error option proc" where
  "SysExec e argv = bindp (invoke (SysExecC argv)) (\<lambda>_.
     case SysExec_result e argv of
       Inl err \<Rightarrow> return (Some (Failed err))
     | Inr status \<Rightarrow> os_Exit status)"

section \<open>The remote handler\<close>

definition parseRemotePrivateFlag :: "Args \<Rightarrow> (bool \<times> Args) proc" where
  "parseRemotePrivateFlag args =
     (let i = IndexOf args ''-p'' in
      if i \<noteq> -1 then
        (case Remove args i of
           None \<Rightarrow> panic ''index out of range''
         | Some (_, args') \<Rightarrow> return (True, args'))
      else return (False, args))"

definition transformRemoteArgs :: "env \<Rightarrow> Args \<Rightarrow> Args proc" where
  "transformRemoteArgs e args =
     bindp (parseRemotePrivateFlag args) (\<lambda>(isPriavte, args1).
       case Remove args1 (Size args1 - 1) of
         None \<Rightarrow> panic ''index out of range''
       | Some (owner, args2) \<Rightarrow>
           bindp (invoke NewC) (\<lambda>_.
           bindp (invoke (ExpandRemoteUrlC owner isPriavte)) (\<lambda>_.
           return (Append args2 [owner, ExpandRemoteUrl_result e owner isPriavte]))))"

text \<open>
  The guard of \<open>remote\<close> is a short-circuit conjunction: \<open>First\<close> is only read when at
  least two tokens remain, so it cannot fail there.
\<close>

definition remote :: "env \<Rightarrow> Args \<Rightarrow> unit proc" where
  "remote e args =
     bindp (if Size args \<ge> 2 \<and> (First args = Some ''add'' \<or> First args = Some ''set-url'')
            then transformRemoteArgs e args
            else return args) (\<lambda>args'.
     bindp (SysExec e (''remote'' # Array args')) (\<lambda>err.
     Check err))"

section \<open>The help command\<close>

text \<open>
  Modelled from the spec: the type \<open>Command\<close>, its methods \<open>Name\<close>, \<open>Runnable\<close> and
  \<open>PrintUsage\<close>, the category lists \<open>Branching\<close>, \<open>Remote\<close>, \<open>GitHub\<close> and the flat
  list \<open>All()\<close> are not among the source files. A command node has a name, a usage
  line, a one-line summary, a long help text, a handler reference that may be absent
  (\<open>Runnable\<close> says whether it is there) and the listable flag. The registry holds the
  three category lists in registration order, and the flat index.
\<close>

record Command =
  Name :: string
  Usage :: string
  Short :: string
  Long :: string
  Runnable :: bool
  List :: bool

record registry =
  Branching :: "Command list"
  Remote :: "Command list"
  GitHub :: "Command list"
  All :: "Command list"

text \<open>\<open>printf "%-16s"\<close>: the name, left-justified, padded with spaces to width 16.\<close>

definition printf_left16 :: "string \<Rightarrow> string" where
  "printf_left16 s = s @ replicate (16 - length s) (CHR '' '')"

text \<open>
  One \<open>{{range}}\<close> block of \<open>usageTemplate\<close>: for each command of the category, in
  order, a line is written when the command is runnable and, inside that, listable.
\<close>

fun range_commands :: "Command list \<Rightarrow> string" where
  "range_commands [] = []"
| "range_commands (c # cs) =
     (if Runnable c
      then (if List c
            then ''\<newline>    '' @ printf_left16 (Name c) @ ''  '' @ Short c
            else [])
      else []) @ range_commands cs"

definition usageTemplate :: "registry \<Rightarrow> string" where
  "usageTemplate reg =
     ''Usage: gh [command] [options] [arguments]\<newline>\<newline>Branching Commands:''
     @ range_commands (Branching reg)
     @ ''\<newline>\<newline>Remote Commands:''
     @ range_commands (Remote reg)
     @ ''\<newline>\<newline>GitHub Commands:''
     @ range_commands (GitHub reg)
     @ ''\<newline>\<newline>See 'gh help [command]' for more information about a command.\<newline>''"

definition PrintUsage :: "registry \<Rightarrow> unit proc" where
  "PrintUsage reg = write_stdout (usageTemplate reg)"

definition Command_PrintUsage :: "Command \<Rightarrow> unit proc" where
  "Command_PrintUsage c = write_stdout (Usage c)"

text \<open>
  The verb \<open>%q\<close> of \<open>fmt\<close> writes a string as a Go string literal (\<open>strconv.Quote\<close>):
  between double quotes, the double quote and the backslash behind a backslash, a
  printable character as it is, the control characters that have a letter escape as
  that escape, any other control character below the space as \<open>\x\<close> and two hexadecimal
  digits. This is written out for strings of bytes below 0x7f. What \<open>strconv.Quote\<close>
  gives for a string with a byte from 0x7f on depends on the Unicode tables of the Go
  release: it is a parameter, with the clock of the standard logger.
\<close>

record stdlib =
  log_clock :: clock
  strconv_Quote :: "string \<Rightarrow> string"

definition hex_digit :: "nat \<Rightarrow> char" where
  "hex_digit d = ''0123456789abcdef'' ! (d mod 16)"

definition quote_byte :: "char \<Rightarrow> string" where
  "quote_byte c =
     (if c = CHR 0x22 \<or> c = CHR 0x5C then [CHR 0x5C, c]
      else if (0x20::nat) \<le> of_char c \<and> of_char c < (0x7F::nat) then [c]
      else if c = CHR 0x07 then [CHR 0x5C, CHR ''a'']
      else if c = CHR 0x08 then [CHR 0x5C, CHR ''b'']
      else if c = CHR 0x0C then [CHR 0x5C, CHR ''f'']
      else if c = CHR 0x0A then [CHR 0x5C, CHR ''n'']
      else if c = CHR 0x0D then [CHR 0x5C, CHR ''r'']
      else if c = CHR 0x09 then [CHR 0x5C, CHR ''t'']
      else if c = CHR 0x0B then [CHR 0x5C, CHR ''v'']
      else [CHR 0x5C, CHR ''x'', hex_digit (of_char c div 16), hex_digit (of_char c mod 16)])"

definition fmt_q :: "stdlib \<Rightarrow> string \<Rightarrow> string" where
  "fmt_q lib s =
     (if list_all (\<lambda>c. of_char c < (0x7F::nat)) s
      then [CHR 0x22] @ concat (map quote_byte s) @ [CHR 0x22]
      else strconv_Quote lib s)"

text \<open>
  The loop of \<open>runHelp\<close> over \<open>All()\<close>: the first command whose name is the topic prints
  its usage and the handler returns; with no such command the loop falls through.
\<close>

fun help_topic :: "stdlib \<Rightarrow> Command list \<Rightarrow> string \<Rightarrow> unit proc" where
  "help_topic lib [] topic =
     bindp (write_stderr (''Unknown help topic: '' @ fmt_q lib topic
                          @ ''. Run 'gh help'.\<newline>'')) (\<lambda>_. os_Exit 2)"
| "help_topic lib (c # cs) topic =
     (if Name c = topic then bindp (Command_PrintUsage c) (\<lambda>_. handler_return)
      else help_topic lib cs topic)"

definition runHelp :: "stdlib \<Rightarrow> registry \<Rightarrow> Args \<Rightarrow> unit proc" where
  "runHelp lib reg args =
     (if IsEmpty args then bindp (PrintUsage reg) (\<lambda>_. handler_return)
      else if Size args \<noteq> 1 then log_Fatal (log_clock lib) ''too many arguments''
      else (case First args of
              None \<Rightarrow> panic ''index out of range''
            | Some topic \<Rightarrow> help_topic lib (All reg) topic))"

text \<open>
  The nodes of a category that the listing shows, as the claim about the listing
  describes them: those with a handler that are marked listable, in registration order.
\<close>

definition listed :: "Command list \<Rightarrow> Command list" where
  "listed cs = filter (\<lambda>c. Runnable c \<and> List c) cs"

definition usage_line :: "Command \<Rightarrow> string" where
  "usage_line c = ''\<newline>    '' @ printf_left16 (Name c) @ ''  '' @ Short c"

section \<open>The release handlers\<close>

text \<open>The flag variables of the release commands, bound to the flag grammar in \<open>init\<close>.\<close>

record release_flags =
  flagReleaseIncludeDrafts :: bool
  flagReleaseShowDownloads :: bool
  flagReleaseDraft :: bool
  flagReleasePrerelease :: bool
  flagReleaseMessage :: string
  flagReleaseFile :: string
  flagReleaseCommitish :: string
  flagReleaseAssets :: "string list"

text \<open>
  Go's \<open>strings.TrimSpace\<close> removes every leading and trailing Unicode white-space
  character. The string is a sequence of bytes in UTF-8; the white-space characters
  (\<open>unicode.IsSpace\<close>) and their encodings are: tab, line feed, vertical tab, form feed,
  carriage return, space; U+0085 and U+00A0; U+1680; U+2000 to U+200A; U+2028, U+2029,
  U+202F, U+205F and U+3000. A byte sequence that is not one of these encodings is not
  white space.
\<close>

definition space_runes :: "string list" where
  "space_runes =
     [[CHR 0x09], [CHR 0x0A], [CHR 0x0B], [CHR 0x0C], [CHR 0x0D], [CHR 0x20],
      [CHR 0xC2, CHR 0x85], [CHR 0xC2, CHR 0xA0],
      [CHR 0xE1, CHR 0x9A, CHR 0x80],
      [CHR 0xE2, CHR 0x80, CHR 0x80], [CHR 0xE2, CHR 0x80, CHR 0x81],
      [CHR 0xE2, CHR 0x80, CHR 0x82], [CHR 0xE2, CHR 0x80, CHR 0x83],
      [CHR 0xE2, CHR 0x80, CHR 0x84], [CHR 0xE2, CHR 0x80, CHR 0x85],
      [CHR 0xE2, CHR 0x80, CHR 0x86], [CHR 0xE2, CHR 0x80, CHR 0x87],
      [CHR 0xE2, CHR 0x80, CHR 0x88], [CHR 0xE2, CHR 0x80, CHR 0x89],
      [CHR 0xE2, CHR 0x80, CHR 0x8A],
      [CHR 0xE2, CHR 0x80, CHR 0xA8], [CHR 0xE2, CHR 0x80, CHR 0xA9],
      [CHR 0xE2, CHR 0x80, CHR 0xAF],
      [CHR 0xE2, CHR 0x81, CHR 0x9F],
      [CHR 0xE3, CHR 0x80, CHR 0x80]]"

text \<open>
  The length of the first of the given byte sequences that the string starts with, 0
  when it starts with none.
\<close>

fun leading_match :: "string list \<Rightarrow> string \<Rightarrow> nat" where
  "leading_match [] s = 0"
| "leading_match (r # rs) s =
     (if take (length r) s = r then length r else leading_match rs s)"

function strip_leading :: "string list \<Rightarrow> string \<Rightarrow> string" where
  "strip_leading rs s =
     (if leading_match rs s = 0 then s
      else strip_leading rs (drop (leading_match rs s) s))"
  by pat_completeness auto
termination
proof (relation "measure (\<lambda>(rs, s). length s)")
  show "wf (measure (\<lambda>(rs, s). length s))" by simp
next
  fix rs :: "string list" and s :: string
  assume m: "leading_match rs s \<noteq> 0"
  have "leading_match rs s \<le> length s"
  proof (induction rs)
    case Nil
    show ?case by simp
  next
    case (Cons r rs)
    show ?case
    proof (cases "take (length r) s = r")
      case True
      then have "length r = length (take (length r) s)" by simp
      then have "length r \<le> length s" by simp
      with True show ?thesis by simp
    next
      case False
      with Cons show ?thesis by simp
    qed
  qed
  with m show "((rs, drop (leading_match rs s) s), (rs, s)) \<in> measure (\<lambda>(rs, s). length s)"
    by simp
qed

definition TrimSpace :: "string \<Rightarrow> string" where
  "TrimSpace s =
     rev (strip_leading (map rev space_runes) (rev (strip_leading space_runes s)))"

text \<open>
  Go's \<open>strings.Index\<close> and \<open>strings.SplitN\<close> for a non-empty separator and a positive
  count, as \<open>genSplit\<close> of the standard library computes them: the count is capped at
  the length of the string plus one, then at most count - 1 cuts are made, each at the
  first occurrence of the separator in what is left, and the rest is the last part. The
  source calls it with the separator "#" and the count 2 only.
\<close>

fun Index :: "string \<Rightarrow> string \<Rightarrow> nat option" where
  "Index [] sep = (if sep = [] then Some 0 else None)"
| "Index (c # s) sep =
     (if take (length sep) (c # s) = sep then Some 0
      else map_option Suc (Index s sep))"

fun genSplit :: "string \<Rightarrow> string \<Rightarrow> nat \<Rightarrow> string list" where
  "genSplit s sep 0 = [s]"
| "genSplit s sep (Suc k) =
     (case Index s sep of
        None \<Rightarrow> [s]
      | Some m \<Rightarrow> take m s # genSplit (drop (m + length sep) s) sep k)"

definition SplitN :: "string \<Rightarrow> string \<Rightarrow> nat \<Rightarrow> string list" where
  "SplitN s sep n = (if n = 0 then [] else genSplit s sep (min n (length s + 1) - 1))"

text \<open>
  Lines 252 to 257 of \<open>uploadAssets\<close>: the token is cut at the first "#"; the first part
  is the file name, the second, when there is one, the label. Reading \<open>parts[0]\<close> of an
  empty slice would panic: \<open>None\<close>.
\<close>

definition splitAsset :: "string \<Rightarrow> (string \<times> string) option" where
  "splitAsset asset =
     (let parts = SplitN asset ''#'' 2 in
      case parts of
        [] \<Rightarrow> None
      | a # rest \<Rightarrow> Some (a, if length parts > 1 then parts ! 1 else []))"

text \<open>
  \<open>gh.UploadReleaseAsset\<close> reads the release it is given; on a nil release that is a
  nil dereference.
\<close>

definition UploadReleaseAsset :: "env \<Rightarrow> release option \<Rightarrow> string \<Rightarrow> string \<Rightarrow> error option proc" where
  "UploadReleaseAsset e rel asset label =
     (case rel of
        None \<Rightarrow> panic ''nil pointer dereference''
      | Some r \<Rightarrow> bindp (invoke (UploadReleaseAssetC r asset label)) (\<lambda>_.
                  return (map_option Failed (UploadReleaseAsset_result e r asset label))))"

fun uploadAssets :: "env \<Rightarrow> release option \<Rightarrow> string list \<Rightarrow> Args \<Rightarrow> unit proc" where
  "uploadAssets e rel [] args = return ()"
| "uploadAssets e rel (a # assets) args =
     (case splitAsset a of
        None \<Rightarrow> panic ''index out of range''
      | Some (asset, label) \<Rightarrow>
          bindp (if Noop args then
                   (if label = []
                    then write_stderr (''Would attach release asset `'' @ asset @ '''\<newline>'')
                    else write_stderr (''Would attach release asset `'' @ asset
                                       @ ''' with label `'' @ label @ '''\<newline>''))
                 else
                   bindp (write_stderr (''Attaching release asset `'' @ asset @ '''...\<newline>'')) (\<lambda>_.
                   bindp (UploadReleaseAsset e rel asset label) (\<lambda>err.
                   Check err)))
            (\<lambda>_. uploadAssets e rel assets args))"

text \<open>
  \<open>createRelease\<close>, in the three blocks of its body. Lines 176 to 195: the tag name,
  the local repository, the project, the client, the commitish.
\<close>

definition createRelease_setup :: "env \<Rightarrow> release_flags \<Rightarrow> Args \<Rightarrow> (string \<times> project \<times> string) proc" where
  "createRelease_setup e fl args =
     (let tagName = LastParam args in
      if tagName = [] then
        bindp (Check (Some (Errorf ''Missing argument TAG''))) (\<lambda>_. handler_return)
      else
        bindp (checked LocalRepoC (LocalRepo_result e)) (\<lambda>localRepo.
        bindp (checked CurrentProjectC (CurrentProject_result e)) (\<lambda>project.
        bindp (invoke (NewClientC (Host project))) (\<lambda>gh.
        bindp (if flagReleaseCommitish fl = []
               then checked CurrentBranchC (CurrentBranch_result e)
               else return (flagReleaseCommitish fl)) (\<lambda>commitish.
        return (tagName, project, commitish))))))"

text \<open>
  Lines 197 to 216: title and body. With a message, it is split by \<open>readMsg\<close>; else,
  with a file flag, \<open>readMsgFromFile\<close> is called, and the argument the source passes
  to it is \<open>flagReleaseMessage\<close>; else the editor is opened on the rendered template.
  The \<open>editor\<close> of that last branch is a new variable of the branch: the one declared
  on line 199 stays nil.
\<close>

definition createRelease_message ::
  "env \<Rightarrow> release_flags \<Rightarrow> string \<Rightarrow> project \<Rightarrow> string \<Rightarrow> (string \<times> string) proc" where
  "createRelease_message e fl tagName project commitish =
     (if flagReleaseMessage fl \<noteq> [] then
        return (readMsg e (flagReleaseMessage fl))
      else if flagReleaseFile fl \<noteq> [] then
        checked (ReadMsgFromFileC (flagReleaseMessage fl))
                (readMsgFromFile_result e (flagReleaseMessage fl))
      else
        bindp (invoke CommentCharC) (\<lambda>_.
        let cs = CommentChar_result e in
        bindp (case renderReleaseTpl e cs tagName (project_String project) commitish of
                 Inl err \<Rightarrow> bindp (Check (Some (Failed err))) (\<lambda>_. panic ''unreachable'')
               | Inr m \<Rightarrow> bindp (Check None) (\<lambda>_. return m)) (\<lambda>message.
        bindp (checked (NewEditorC message) (NewEditor_result e message)) (\<lambda>editor.
        checked EditTitleAndBodyC (EditTitleAndBody_result e)))))"

text \<open>The release parameters \<open>createRelease\<close> builds on lines 222 to 229; the fields it
  does not name are zero values.\<close>

definition release_params :: "release_flags \<Rightarrow> string \<Rightarrow> string \<Rightarrow> string \<Rightarrow> string \<Rightarrow> release" where
  "release_params fl tagName commitish title body =
     \<lparr>TagName = tagName, TargetCommitish = commitish, release_Name = title,
      Body = body, Draft = flagReleaseDraft fl, Prerelease = flagReleasePrerelease fl,
      HtmlUrl = [], ZipballUrl = [], TarballUrl = [], Assets = []\<rparr>"

text \<open>
  Lines 218 to 247: the empty-title check, the release parameters, then either the
  description of the release (no-op latch) or its creation, the upload of the assets,
  and \<open>os.Exit(0)\<close>. The deferred \<open>editor.DeleteFile()\<close> is never registered, the
  \<open>editor\<close> of line 199 being nil.
\<close>

definition createRelease_finish ::
  "env \<Rightarrow> release_flags \<Rightarrow> Args \<Rightarrow> string \<Rightarrow> project \<Rightarrow> string \<Rightarrow> string \<Rightarrow> string \<Rightarrow> unit proc" where
  "createRelease_finish e fl args tagName project commitish title body =
     bindp (if title = []
            then Check (Some (Errorf ''Aborting release due to empty release title''))
            else return ()) (\<lambda>_.
     let params = release_params fl tagName commitish title body in
     bindp (if Noop args then
              bindp (write_stdout (''Would create release `'' @ title @ ''' for ''
                                   @ project_String project @ '' with tag name `''
                                   @ tagName @ '''\<newline>'')) (\<lambda>_.
              return None)
            else
              bindp (checked (CreateReleaseC project params)
                             (CreateRelease_result e project params)) (\<lambda>rel.
              bindp (write_stdout (HtmlUrl rel @ ''\<newline>'')) (\<lambda>_.
              return (Some rel)))) (\<lambda>rel.
     bindp (uploadAssets e rel (flagReleaseAssets fl) args) (\<lambda>_.
     os_Exit 0)))"

definition createRelease :: "env \<Rightarrow> release_flags \<Rightarrow> Args \<Rightarrow> unit proc" where
  "createRelease e fl args =
     bindp (createRelease_setup e fl args) (\<lambda>(tagName, project, commitish).
     bindp (createRelease_message e fl tagName project commitish) (\<lambda>(title, body).
     createRelease_finish e fl args tagName project commitish title body))"

fun print_assets :: "releaseAsset list \<Rightarrow> unit proc" where
  "print_assets [] = return ()"
| "print_assets (a # as) =
     bindp (write_stdout (DownloadUrl a @ ''\<newline>'')) (\<lambda>_. print_assets as)"

definition showRelease :: "env \<Rightarrow> release_flags \<Rightarrow> Args \<Rightarrow> unit proc" where
  "showRelease e fl args =
     (let tagName = LastParam args in
      bindp (if tagName = [] then Check (Some (Errorf ''Missing argument TAG''))
             else return ()) (\<lambda>_.
      bindp (checked LocalRepoC (LocalRepo_result e)) (\<lambda>localRepo.
      bindp (checked MainProjectC (MainProject_result e)) (\<lambda>project.
      bindp (invoke (NewClientC (Host project))) (\<lambda>gh.
      bindp (if Noop args then
               write_stdout (''Would display information for `'' @ tagName
                             @ ''' release\<newline>'')
             else
               bindp (checked (FetchReleaseC project tagName)
                              (FetchRelease_result e project tagName)) (\<lambda>rel.
               let body = TrimSpace (Body rel) in
               bindp (write_stdout (release_Name rel @ '' ('' @ TagName rel @ '')\<newline>'')) (\<lambda>_.
               bindp (if body \<noteq> [] then write_stdout (''\<newline>'' @ body @ ''\<newline>'')
                      else return ()) (\<lambda>_.
               if flagReleaseShowDownloads fl then
                 bindp (write_stdout ''\<newline>## Downloads\<newline>\<newline>'') (\<lambda>_.
                 bindp (print_assets (Assets rel)) (\<lambda>_.
                 if ZipballUrl rel \<noteq> [] then
                   bindp (write_stdout (ZipballUrl rel @ ''\<newline>'')) (\<lambda>_.
                   write_stdout (TarballUrl rel @ ''\<newline>''))
                 else return ()))
               else return ())))) (\<lambda>_.
      os_Exit 0))))))"

section \<open>The flag grammar of the release commands\<close>

text \<open>
  Modelled from the spec: the flag library behind \<open>cmdCreateRelease.Flag\<close> and the type
  \<open>stringSliceValue\<close> are not among the source files. Section 4.2 of the spec: a flag is
  declared with a kind (boolean, string, repeated string), a long and a short name; a
  repeated-string flag accumulates every occurrence into an ordered sequence; parsing
  scans the tokens from left to right, a token that matches a declared alias is consumed
  (with its value token for the string kinds) and its value recorded, any other token
  stays, in order, as a positional; the joined form \<open>--flag=value\<close> equals the form
  with a separate value token; a partial long name that fits several long names is a
  usage error; a boolean flag never consumes the next token. Left open by the spec and
  settled here as usage errors: a string flag with no value token after it, and a joined
  value on a boolean flag.
\<close>

datatype flag =
    BoolVarP "bool \<Rightarrow> release_flags \<Rightarrow> release_flags" string string
  | StringVarP "string \<Rightarrow> release_flags \<Rightarrow> release_flags" string string
  | VarP "string \<Rightarrow> release_flags \<Rightarrow> release_flags" string string

fun flag_long :: "flag \<Rightarrow> string" where
  "flag_long (BoolVarP _ l _) = l"
| "flag_long (StringVarP _ l _) = l"
| "flag_long (VarP _ l _) = l"

fun flag_short :: "flag \<Rightarrow> string" where
  "flag_short (BoolVarP _ _ s) = s"
| "flag_short (StringVarP _ _ s) = s"
| "flag_short (VarP _ _ s) = s"

definition stringSliceValue_Set :: "string \<Rightarrow> string list \<Rightarrow> string list" where
  "stringSliceValue_Set v s = s @ [v]"

text \<open>The declarations of \<open>init\<close> for \<open>cmdCreateRelease\<close>, lines 97 to 102.\<close>

definition cmdCreateRelease_Flag :: "flag list" where
  "cmdCreateRelease_Flag =
     [BoolVarP (\<lambda>b fl. fl\<lparr>flagReleaseDraft := b\<rparr>) ''draft'' ''d'',
      BoolVarP (\<lambda>b fl. fl\<lparr>flagReleasePrerelease := b\<rparr>) ''prerelease'' ''p'',
      VarP (\<lambda>v fl. fl\<lparr>flagReleaseAssets := stringSliceValue_Set v (flagReleaseAssets fl)\<rparr>)
           ''attach'' ''a'',
      StringVarP (\<lambda>v fl. fl\<lparr>flagReleaseMessage := v\<rparr>) ''message'' ''m'',
      StringVarP (\<lambda>v fl. fl\<lparr>flagReleaseFile := v\<rparr>) ''file'' ''f'',
      StringVarP (\<lambda>v fl. fl\<lparr>flagReleaseCommitish := v\<rparr>) ''commitish'' ''c'']"

definition release_flags_default :: release_flags where
  "release_flags_default =
     \<lparr>flagReleaseIncludeDrafts = False, flagReleaseShowDownloads = False,
      flagReleaseDraft = False, flagReleasePrerelease = False,
      flagReleaseMessage = [], flagReleaseFile = [], flagReleaseCommitish = [],
      flagReleaseAssets = []\<rparr>"

datatype usage_error = AmbiguousFlag string | MissingValue string | UnexpectedValue string

datatype lookup = NotAFlag | Ambiguous | Found flag "string option"

definition is_prefix :: "string \<Rightarrow> string \<Rightarrow> bool" where
  "is_prefix p s = (take (length p) s = p)"

definition lookup_long :: "flag list \<Rightarrow> string \<Rightarrow> string option \<Rightarrow> lookup" where
  "lookup_long g name v =
     (case filter (\<lambda>f. flag_long f = name) g of
        f # _ \<Rightarrow> Found f v
      | [] \<Rightarrow> (case filter (\<lambda>f. is_prefix name (flag_long f)) g of
                 [] \<Rightarrow> NotAFlag
               | [f] \<Rightarrow> Found f v
               | _ \<Rightarrow> Ambiguous))"

definition lookup_flag :: "flag list \<Rightarrow> string \<Rightarrow> lookup" where
  "lookup_flag g t =
     (if take 2 t = ''--'' \<and> length t > 2 then
        (let body = drop 2 t;
             name = takeWhile (\<lambda>c. c \<noteq> CHR ''='') body in
         if name = [] then NotAFlag
         else if CHR ''='' \<in> set body
              then lookup_long g name (Some (drop (Suc (length name)) body))
              else lookup_long g name None)
      else if length t = 2 \<and> take 1 t = ''-'' then
        (case filter (\<lambda>f. flag_short f = drop 1 t) g of
           f # _ \<Rightarrow> Found f None
         | [] \<Rightarrow> NotAFlag)
      else NotAFlag)"

fun parse :: "flag list \<Rightarrow> string list \<Rightarrow> release_flags \<Rightarrow> usage_error + release_flags \<times> string list" where
  "parse g [] fl = Inr (fl, [])"
| "parse g (t # ts) fl =
     (case lookup_flag g t of
        NotAFlag \<Rightarrow>
          (case parse g ts fl of
             Inl err \<Rightarrow> Inl err
           | Inr (fl', rest) \<Rightarrow> Inr (fl', t # rest))
      | Ambiguous \<Rightarrow> Inl (AmbiguousFlag t)
      | Found (BoolVarP setv _ _) None \<Rightarrow> parse g ts (setv True fl)
      | Found (BoolVarP setv _ _) (Some v) \<Rightarrow> Inl (UnexpectedValue t)
      | Found (StringVarP setv _ _) (Some v) \<Rightarrow> parse g ts (setv v fl)
      | Found (VarP setv _ _) (Some v) \<Rightarrow> parse g ts (setv v fl)
      | Found (StringVarP setv _ _) None \<Rightarrow>
          (case ts of
             [] \<Rightarrow> Inl (MissingValue t)
           | v # ts' \<Rightarrow> parse g ts' (setv v fl))
      | Found (VarP setv _ _) None \<Rightarrow>
          (case ts of
             [] \<Rightarrow> Inl (MissingValue t)
           | v # ts' \<Rightarrow> parse g ts' (setv v fl)))"

section \<open>Concrete inputs\<close>

text \<open>
  One set of collaborators, one registry and the empty world, on which the handlers
  are run in the closed theorems below. The upload of \<open>missing.zip\<close> fails, the only file
  that can be read is \<open>notes.md\<close>, the external binary ends with status 0, and the
  registry has one listable node without a handler.
\<close>

definition world0 :: world where
  "world0 = \<lparr>stdout = [], stderr = [], trace = []\<rparr>"

definition example_project :: project where
  "example_project = \<lparr>Host = ''github.com'', project_String = ''jingweno/gh''\<rparr>"

definition example_env :: env where
  "example_env =
     \<lparr>LocalRepo_result = Inr (),
      MainProject_result = Inr example_project,
      CurrentProject_result = Inr example_project,
      CurrentBranch_result = Inr ''master'',
      CommentChar_result = ''#'',
      renderReleaseTpl = (\<lambda>cs tag proj commitish. Inr []),
      NewEditor_result = (\<lambda>m. Inr ()),
      EditTitleAndBody_result = Inr (''Edited title'', ''Edited body''),
      readMsg = (\<lambda>m. (takeWhile (\<lambda>c. c \<noteq> CHR 0x0A) m,
                       drop 1 (dropWhile (\<lambda>c. c \<noteq> CHR 0x0A) m))),
      readMsgFromFile_result = (\<lambda>f. if f = ''notes.md''
                                     then Inr (''Title from file'', ''Body from file'')
                                     else Inl (''open '' @ f @ '': no such file or directory'')),
      FetchRelease_result = (\<lambda>p t. Inl ''Unable to find release''),
      CreateRelease_result = (\<lambda>p r. Inr (r\<lparr>HtmlUrl := ''https://github.com/jingweno/gh/releases/'' @ TagName r\<rparr>)),
      UploadReleaseAsset_result = (\<lambda>r a l. if a = ''missing.zip''
                                           then Some ''open missing.zip: no such file or directory''
                                           else None),
      ExpandRemoteUrl_result = (\<lambda>owner p. if p then ''git@github.com:'' @ owner @ ''/gh.git''
                                           else ''git://github.com/'' @ owner @ ''/gh.git''),
      SysExec_result = (\<lambda>argv. Inr 0)\<rparr>"

definition example_stdlib :: stdlib where
  "example_stdlib =
     \<lparr>log_clock = \<lparr>year = 2013, month = 6, day = 1, hour = 9, minute = 5, second = 0\<rparr>,
      strconv_Quote = (\<lambda>s. [CHR 0x22] @ s @ [CHR 0x22])\<rparr>"

definition cmdRemote :: Command where
  "cmdRemote = \<lparr>Name = ''remote'', Usage = ''remote [-p] OPTIONS USER[/REPOSITORY]'',
                Short = ''View and manage a set of remote repositories'', Long = [],
                Runnable = True, List = True\<rparr>"

definition cmdHelp :: Command where
  "cmdHelp = \<lparr>Name = ''help'', Usage = ''help [command]'', Short = ''Show help'',
              Long = ''Shows usage for a command.'', Runnable = True, List = True\<rparr>"

definition cmdRouter :: Command where
  "cmdRouter = \<lparr>Name = ''pages'', Usage = ''pages'', Short = ''Router without a handler'',
                Long = [], Runnable = False, List = True\<rparr>"

definition example_registry :: registry where
  "example_registry = \<lparr>Branching = [cmdRouter], Remote = [cmdRemote], GitHub = [cmdHelp],
                       All = [cmdRouter, cmdRemote, cmdHelp]\<rparr>"

text \<open>
  The calls that reach the hosting API: fetching or creating a release, uploading an
  asset. Building the client (\<open>NewClientC\<close>) sends nothing.
\<close>

fun hosting_api_call :: "call \<Rightarrow> bool" where
  "hosting_api_call (FetchReleaseC _ _) = True"
| "hosting_api_call (CreateReleaseC _ _) = True"
| "hosting_api_call (UploadReleaseAssetC _ _ _) = True"
| "hosting_api_call _ = False"

text \<open>
  For one asset token of \<open>--attach\<close>: the upload call \<open>uploadAssets\<close> makes for it on a
  release, and what the hosting API answers to that call.
\<close>

definition upload_call :: "release \<Rightarrow> string \<Rightarrow> call" where
  "upload_call r a = (case splitAsset a of
       Some (asset, label) \<Rightarrow> UploadReleaseAssetC r asset label
     | None \<Rightarrow> UploadReleaseAssetC r [] [])"

definition upload_answer :: "env \<Rightarrow> release \<Rightarrow> string \<Rightarrow> string option" where
  "upload_answer e r a = (case splitAsset a of
       Some (asset, label) \<Rightarrow> UploadReleaseAsset_result e r asset label
     | None \<Rightarrow> None)"

text \<open>
  A step is quiet for an observation of the world when, from every world, it leaves
  the observation as it was and does not panic.
\<close>

definition quiet :: "(world \<Rightarrow> 'o) \<Rightarrow> 'a proc \<Rightarrow> bool" where
  "quiet obs m = (\<forall>w. obs (snd (m w)) = obs w \<and> (\<forall>p. fst (m w) \<noteq> Inl (Panic p)))"

definition api_calls :: "world \<Rightarrow> call list" where
  "api_calls w = filter hosting_api_call (trace w)"

text \<open>
  One occurrence of the attach flag, in each of its three forms: the short alias and
  the long alias with a separate value token, and the long alias joined to its value.
\<close>

fun attach_tokens :: "nat \<times> string \<Rightarrow> string list" where
  "attach_tokens (form, v) =
     (if form = 0 then [''-a'', v]
      else if form = 1 then [''--attach'', v]
      else [''--attach='' @ v])"

text \<open>
  An argument list of the release-create command, item by item: an occurrence of the
  attach flag in one of its forms, a positional token (such as the tag name), a boolean
  flag, a string flag with its value. \<open>item_ok\<close> says that a positional token matches no
  declared alias and that the other flags are written with one of their aliases.
\<close>

datatype arg_item = Attach nat string | Positional string | Switch string | Valued string string

fun item_tokens :: "arg_item \<Rightarrow> string list" where
  "item_tokens (Attach form v) = attach_tokens (form, v)"
| "item_tokens (Positional t) = [t]"
| "item_tokens (Switch t) = [t]"
| "item_tokens (Valued k v) = [k, v]"

fun item_ok :: "arg_item \<Rightarrow> bool" where
  "item_ok (Attach form v) = True"
| "item_ok (Positional t) = (lookup_flag cmdCreateRelease_Flag t = NotAFlag)"
| "item_ok (Switch t) = (t \<in> set [''-d'', ''--draft'', ''-p'', ''--prerelease''])"
| "item_ok (Valued k v) =
     (k \<in> set [''-m'', ''--message'', ''-f'', ''--file'', ''-c'', ''--commitish''])"

fun attach_values :: "arg_item list \<Rightarrow> string list" where
  "attach_values [] = []"
| "attach_values (Attach form v # items) = v # attach_values items"
| "attach_values (_ # items) = attach_values items"

fun positionals :: "arg_item list \<Rightarrow> string list" where
  "positionals [] = []"
| "positionals (Positional t # items) = t # positionals items"
| "positionals (_ # items) = positionals items"

text \<open>
  The two parts of an asset token, as the claim about them says: the file name is what
  stands before the first "#", the label what stands after it, and the label is empty
  when the token has no "#".
\<close>

definition asset_filename :: "string \<Rightarrow> string" where
  "asset_filename a = takeWhile (\<lambda>c. c \<noteq> CHR ''#'') a"

definition asset_label :: "string \<Rightarrow> string" where
  "asset_label a = drop 1 (dropWhile (\<lambda>c. c \<noteq> CHR ''#'') a)"

text \<open>
  What the upload step writes to standard error for one asset: with the no-op latch
  set, and before an upload.
\<close>

definition would_attach_line :: "string \<Rightarrow> string" where
  "would_attach_line a =
     (if asset_label a = []
      then ''Would attach release asset `'' @ asset_filename a @ '''\<newline>''
      else ''Would attach release asset `'' @ asset_filename a
           @ ''' with label `'' @ asset_label a @ '''\<newline>'')"

definition attaching_line :: "string \<Rightarrow> string" where
  "attaching_line a = ''Attaching release asset `'' @ asset_filename a @ '''...\<newline>''"

text \<open>
  The checks of the create handler before it describes or creates the release, stated
  on its inputs. The setup passes when a tag name is given, the local repository and the
  project are found, and the commitish is given by the flag or else the current branch
  is found. The message is read: from the message flag; else, with a file flag, from
  the file the handler asks for; else from the editor, after the template has been
  rendered and the editor opened. All checks pass when, besides, the title is not
  empty.
\<close>

definition setup_passes :: "env \<Rightarrow> release_flags \<Rightarrow> Args \<Rightarrow> project \<Rightarrow> string \<Rightarrow> bool" where
  "setup_passes e fl args project commitish =
     (LastParam args \<noteq> [] \<and>
      LocalRepo_result e = Inr () \<and>
      CurrentProject_result e = Inr project \<and>
      (if flagReleaseCommitish fl = []
       then CurrentBranch_result e = Inr commitish
       else commitish = flagReleaseCommitish fl))"

definition message_passes ::
  "env \<Rightarrow> release_flags \<Rightarrow> string \<Rightarrow> project \<Rightarrow> string \<Rightarrow> string \<Rightarrow> string \<Rightarrow> bool" where
  "message_passes e fl tagName project commitish title body =
     (if flagReleaseMessage fl \<noteq> [] then
        readMsg e (flagReleaseMessage fl) = (title, body)
      else if flagReleaseFile fl \<noteq> [] then
        readMsgFromFile_result e (flagReleaseMessage fl) = Inr (title, body)
      else
        (\<exists>message.
           renderReleaseTpl e (CommentChar_result e) tagName (project_String project) commitish
             = Inr message \<and>
           NewEditor_result e message = Inr () \<and>
           EditTitleAndBody_result e = Inr (title, body)))"

definition checks_pass ::
  "env \<Rightarrow> release_flags \<Rightarrow> Args \<Rightarrow> project \<Rightarrow> string \<Rightarrow> string \<Rightarrow> string \<Rightarrow> bool" where
  "checks_pass e fl args project commitish title body =
     (setup_passes e fl args project commitish \<and>
      message_passes e fl (LastParam args) project commitish title body \<and>
      title \<noteq> [])"



section \<open>Laws of the process steps\<close>

lemma bindp_return [simp]: "bindp (return x) f = f x"
  by (rule ext) (simp add: bindp_def return_def)

lemma bindp_os_Exit [simp]: "bindp (os_Exit n) f = os_Exit n"
  by (rule ext) (simp add: bindp_def os_Exit_def)

lemma bindp_panic [simp]: "bindp (panic m) f = panic m"
  by (rule ext) (simp add: bindp_def panic_def)

lemma bindp_handler_return [simp]: "bindp handler_return f = handler_return"
  by (rule ext) (simp add: bindp_def handler_return_def)

lemma bindp_assoc: "bindp (bindp m f) g = bindp m (\<lambda>x. bindp (f x) g)"
  by (rule ext) (simp add: bindp_def split: prod.splits sum.splits)

lemma bindp_Inl: "m w = (Inl out, w') \<Longrightarrow> bindp m f w = (Inl out, w')"
  by (simp add: bindp_def)

lemma bindp_Inr: "m w = (Inr x, w') \<Longrightarrow> bindp m f w = f x w'"
  by (simp add: bindp_def)

lemma bindp_write_stdout [simp]:
  "bindp (write_stdout s) f w = f () (w\<lparr>stdout := stdout w @ [s]\<rparr>)"
  by (simp add: bindp_def write_stdout_def)

lemma bindp_write_stderr [simp]:
  "bindp (write_stderr s) f w = f () (w\<lparr>stderr := stderr w @ [s]\<rparr>)"
  by (simp add: bindp_def write_stderr_def)

lemma bindp_invoke [simp]:
  "bindp (invoke c) f w = f () (w\<lparr>trace := trace w @ [c]\<rparr>)"
  by (simp add: bindp_def invoke_def)

lemma Check_None [simp]: "Check None = return ()"
  by (simp add: Check_def)

lemma Check_Some [simp]:
  "Check (Some err) w =
     (Inl (Exit (exit_status err)), w\<lparr>stderr := stderr w @ [error_message err @ ''\<newline>'']\<rparr>)"
  by (simp add: Check_def os_Exit_def)

lemma bindp_Check_Some [simp]:
  "bindp (Check (Some err)) f w =
     (Inl (Exit (exit_status err)), w\<lparr>stderr := stderr w @ [error_message err @ ''\<newline>'']\<rparr>)"
  by (simp add: bindp_def)

lemma checked_Inr [simp]:
  "checked c (Inr v) w = (Inr v, w\<lparr>trace := trace w @ [c]\<rparr>)"
  by (simp add: checked_def return_def)

lemma checked_Inl [simp]:
  "checked c (Inl err) w =
     (Inl (Exit 1), w\<lparr>trace := trace w @ [c], stderr := stderr w @ [err @ ''\<newline>'']\<rparr>)"
  by (simp add: checked_def)

section \<open>The remote handler rewrites its arguments\<close>

lemma index_from_absent: "t \<notin> set xs \<Longrightarrow> index_from i xs t = -1"
  by (induction xs arbitrary: i) auto

lemma index_from_present:
  "t \<in> set xs \<Longrightarrow> \<exists>k < length xs. index_from i xs t = i + int k \<and>
      take k xs @ drop (Suc k) xs = remove1 t xs"
proof (induction xs arbitrary: i)
  case Nil
  then show ?case by simp
next
  case (Cons x xs)
  show ?case
  proof (cases "x = t")
    case True
    then show ?thesis by (intro exI[of _ 0]) simp
  next
    case False
    with Cons.prems have "t \<in> set xs" by simp
    from Cons.IH[OF this, of "i + 1"] obtain k where
      k: "k < length xs" "index_from (i + 1) xs t = i + 1 + int k"
         "take k xs @ drop (Suc k) xs = remove1 t xs" by blast
    with False show ?thesis by (intro exI[of _ "Suc k"]) simp
  qed
qed

lemma parseRemotePrivateFlag_eq:
  "parseRemotePrivateFlag a w =
     (Inr (''-p'' \<in> set (Params a), a\<lparr>Params := remove1 ''-p'' (Params a)\<rparr>), w)"
proof (cases "''-p'' \<in> set (Params a)")
  case True
  from index_from_present[OF this, of 0] obtain k where
    k: "k < length (Params a)" "index_from 0 (Params a) ''-p'' = int k"
       "take k (Params a) @ drop (Suc k) (Params a) = remove1 ''-p'' (Params a)" by auto
  with True show ?thesis
    by (simp add: parseRemotePrivateFlag_def IndexOf_def Remove_def Size_def return_def)
next
  case False
  then have "remove1 ''-p'' (Params a) = Params a" by (simp add: remove1_idem)
  with False show ?thesis
    by (simp add: parseRemotePrivateFlag_def IndexOf_def index_from_absent return_def)
qed

lemma Remove_last:
  assumes ne: "Params a \<noteq> []"
  shows "Remove a (Size a - 1) = Some (last (Params a), a\<lparr>Params := butlast (Params a)\<rparr>)"
proof -
  from ne have n: "nat (int (length (Params a)) - 1) = length (Params a) - 1" by simp
  from ne have "length (Params a) > 0" by simp
  then have "Suc (length (Params a) - 1) = length (Params a)" by simp
  with ne n show ?thesis
    by (simp add: Remove_def Size_def last_conv_nth butlast_conv_take)
qed

lemma transformRemoteArgs_eq:
  assumes "remove1 ''-p'' (Params a) \<noteq> []"
  shows "transformRemoteArgs e a w =
     (let ys = remove1 ''-p'' (Params a); owner = last ys; p = (''-p'' \<in> set (Params a)) in
      (Inr (a\<lparr>Params := butlast ys @ [owner, ExpandRemoteUrl_result e owner p]\<rparr>),
       w\<lparr>trace := trace w @ [NewC, ExpandRemoteUrlC owner p]\<rparr>))"
  using assms
  by (simp add: transformRemoteArgs_def bindp_def parseRemotePrivateFlag_eq Remove_last
      invoke_def return_def Append_def Let_def)

lemma remove1_two_left: "2 \<le> length xs \<Longrightarrow> remove1 t xs \<noteq> []"
  by (cases xs; cases "tl xs") (auto split: if_splits)

lemma SysExec_eq:
  "bindp (SysExec e argv) Check w =
     (case SysExec_result e argv of
        Inl err \<Rightarrow> (Inl (Exit 1), w\<lparr>trace := trace w @ [SysExecC argv],
                                     stderr := stderr w @ [err @ ''\<newline>'']\<rparr>)
      | Inr status \<Rightarrow> (Inl (Exit status), w\<lparr>trace := trace w @ [SysExecC argv]\<rparr>))"
  by (simp add: SysExec_def bindp_def invoke_def return_def os_Exit_def split: sum.splits)

text \<open>
  C1. When the first remaining argument is "add" or "set-url" and at least two
  arguments remain, the remote handler removes the "-p" token if there is one (the
  first one) and records whether it was there, removes the last token as the owner,
  resolves the owner through the hosting collaborator with that boolean, and appends
  the owner and the resolved URL; the other tokens keep their order. The rewritten
  sequence is what is handed to the external binary.
\<close>

theorem remote_transforms_args:
  assumes "2 \<le> length xs" and "hd xs = ''add'' \<or> hd xs = ''set-url''"
  shows "remote e \<lparr>Params = xs, Noop = n\<rparr> w =
     (let ys = remove1 ''-p'' xs;
          owner = last ys;
          isPrivate = (''-p'' \<in> set xs);
          url = ExpandRemoteUrl_result e owner isPrivate;
          argv = ''remote'' # butlast ys @ [owner, url];
          w' = w\<lparr>trace := trace w @ [NewC, ExpandRemoteUrlC owner isPrivate, SysExecC argv]\<rparr>
      in case SysExec_result e argv of
           Inl err \<Rightarrow> (Inl (Exit 1), w'\<lparr>stderr := stderr w' @ [err @ ''\<newline>'']\<rparr>)
         | Inr status \<Rightarrow> (Inl (Exit status), w'))"
proof -
  let ?a = "\<lparr>Params = xs, Noop = n\<rparr>"
  from assms(1) have ne: "remove1 ''-p'' (Params ?a) \<noteq> []"
    by (simp add: remove1_two_left)
  from assms(1) obtain x xs' where xs: "xs = x # xs'" by (cases xs) auto
  with assms(2) have first: "First ?a = Some ''add'' \<or> First ?a = Some ''set-url''"
    by (auto simp: First_def)
  from assms(1) have sz: "2 \<le> Size ?a" by (simp add: Size_def)
  have guard: "(2 \<le> Size ?a \<and> (First ?a = Some ''add'' \<or> First ?a = Some ''set-url'')) = True"
    using first sz by simp
  have t: "transformRemoteArgs e ?a w =
     (Inr \<lparr>Params = butlast (remove1 ''-p'' xs)
                 @ [last (remove1 ''-p'' xs),
                    ExpandRemoteUrl_result e (last (remove1 ''-p'' xs)) (''-p'' \<in> set xs)],
               Noop = n\<rparr>,
      w\<lparr>trace := trace w @ [NewC, ExpandRemoteUrlC (last (remove1 ''-p'' xs)) (''-p'' \<in> set xs)]\<rparr>)"
    using transformRemoteArgs_eq[OF ne, of e w] by (simp add: Let_def)
  have "remote e ?a w =
          bindp (SysExec e (''remote'' # butlast (remove1 ''-p'' xs)
                 @ [last (remove1 ''-p'' xs),
                    ExpandRemoteUrl_result e (last (remove1 ''-p'' xs)) (''-p'' \<in> set xs)])) Check
            (w\<lparr>trace := trace w @ [NewC, ExpandRemoteUrlC (last (remove1 ''-p'' xs)) (''-p'' \<in> set xs)]\<rparr>)"
    unfolding remote_def guard if_True
    by (subst bindp_def) (simp add: t Array_def)
  then show ?thesis
    by (simp add: SysExec_eq Let_def split: sum.splits)
qed

theorem remote_transforms_args_witness:
  "2 \<le> length [''add'', ''-p'', ''jingweno''] \<and>
   hd [''add'', ''-p'', ''jingweno''] = ''add'' \<and>
   remote example_env \<lparr>Params = [''add'', ''-p'', ''jingweno''], Noop = False\<rparr> world0 =
     (Inl (Exit 0),
      \<lparr>stdout = [], stderr = [],
       trace = [NewC, ExpandRemoteUrlC ''jingweno'' True,
                SysExecC [''remote'', ''add'', ''jingweno'', ''git@github.com:jingweno/gh.git'']]\<rparr>)"
  using remote_transforms_args[of "[''add'', ''-p'', ''jingweno'']" example_env False world0]
  by (simp add: example_env_def world0_def Let_def)

section \<open>The remote handler and the no-op latch\<close>

lemma remote_eq:
  "remote e args w =
     (if 2 \<le> length (Params args) \<and>
         (hd (Params args) = ''add'' \<or> hd (Params args) = ''set-url'')
      then bindp (SysExec e (''remote'' # butlast (remove1 ''-p'' (Params args))
                   @ [last (remove1 ''-p'' (Params args)),
                      ExpandRemoteUrl_result e (last (remove1 ''-p'' (Params args)))
                        (''-p'' \<in> set (Params args))])) Check
             (w\<lparr>trace := trace w @ [NewC, ExpandRemoteUrlC (last (remove1 ''-p'' (Params args)))
                                           (''-p'' \<in> set (Params args))]\<rparr>)
      else bindp (SysExec e (''remote'' # Params args)) Check w)"
proof (cases "2 \<le> length (Params args) \<and>
         (hd (Params args) = ''add'' \<or> hd (Params args) = ''set-url'')")
  case True
  then have ne: "remove1 ''-p'' (Params args) \<noteq> []" by (simp add: remove1_two_left)
  from True have "Params args \<noteq> []" by auto
  with True have guard:
    "(2 \<le> Size args \<and> (First args = Some ''add'' \<or> First args = Some ''set-url'')) = True"
    by (cases "Params args") (auto simp: Size_def First_def)
  have t: "transformRemoteArgs e args w =
     (Inr (args\<lparr>Params := butlast (remove1 ''-p'' (Params args))
                 @ [last (remove1 ''-p'' (Params args)),
                    ExpandRemoteUrl_result e (last (remove1 ''-p'' (Params args)))
                      (''-p'' \<in> set (Params args))]\<rparr>),
      w\<lparr>trace := trace w @ [NewC, ExpandRemoteUrlC (last (remove1 ''-p'' (Params args)))
                                    (''-p'' \<in> set (Params args))]\<rparr>)"
    using transformRemoteArgs_eq[OF ne, of e w] by (simp add: Let_def)
  have "remote e args w =
          bindp (SysExec e (''remote'' # butlast (remove1 ''-p'' (Params args))
                   @ [last (remove1 ''-p'' (Params args)),
                      ExpandRemoteUrl_result e (last (remove1 ''-p'' (Params args)))
                        (''-p'' \<in> set (Params args))])) Check
             (w\<lparr>trace := trace w @ [NewC, ExpandRemoteUrlC (last (remove1 ''-p'' (Params args)))
                                           (''-p'' \<in> set (Params args))]\<rparr>)"
    unfolding remote_def guard if_True
    by (subst bindp_def) (simp add: t Array_def)
  then show ?thesis unfolding if_P[OF True] .
next
  case False
  then have guard:
    "(2 \<le> Size args \<and> (First args = Some ''add'' \<or> First args = Some ''set-url'')) = False"
    by (cases "Params args") (auto simp: Size_def First_def)
  have "remote e args w = bindp (SysExec e (''remote'' # Params args)) Check w"
    unfolding remote_def guard if_False by (simp add: Array_def)
  then show ?thesis unfolding if_not_P[OF False] .
qed

text \<open>
  C6, as the code has it. The remote handler never reads the no-op latch: with the
  latch set it does exactly what it does with the latch clear. On every invocation,
  whatever the latch, it hands a sequence to the external binary: when the first
  argument is "add" or "set-url" and at least two arguments remain, the owner is first
  resolved through the hosting collaborator and the rewritten sequence is handed over;
  otherwise the arguments are handed over as they are. The handler writes nothing to
  standard output, and the process ends with the status of the binary, or with status
  1 and the error on standard error when the binary cannot be launched.
\<close>

theorem remote_ignores_noop:
  "remote e (args\<lparr>Noop := True\<rparr>) w = remote e (args\<lparr>Noop := False\<rparr>) w \<and>
   remote e args w =
     (let xs = Params args;
          rewrite = (2 \<le> length xs \<and> (hd xs = ''add'' \<or> hd xs = ''set-url''));
          ys = remove1 ''-p'' xs;
          owner = last ys;
          isPrivate = (''-p'' \<in> set xs);
          argv = ''remote'' # (if rewrite
                               then butlast ys @ [owner, ExpandRemoteUrl_result e owner isPrivate]
                               else xs);
          w' = w\<lparr>trace := trace w
                       @ (if rewrite then [NewC, ExpandRemoteUrlC owner isPrivate] else [])
                       @ [SysExecC argv]\<rparr>
      in case SysExec_result e argv of
           Inl err \<Rightarrow> (Inl (Exit 1), w'\<lparr>stderr := stderr w' @ [err @ ''\<newline>'']\<rparr>)
         | Inr status \<Rightarrow> (Inl (Exit status), w'))"
proof -
  have "Params (args\<lparr>Noop := True\<rparr>) = Params (args\<lparr>Noop := False\<rparr>)" by simp
  then have n: "remote e (args\<lparr>Noop := True\<rparr>) w = remote e (args\<lparr>Noop := False\<rparr>) w"
    by (simp only: remote_eq)
  have "remote e args w =
     (let xs = Params args;
          rewrite = (2 \<le> length xs \<and> (hd xs = ''add'' \<or> hd xs = ''set-url''));
          ys = remove1 ''-p'' xs;
          owner = last ys;
          isPrivate = (''-p'' \<in> set xs);
          argv = ''remote'' # (if rewrite
                               then butlast ys @ [owner, ExpandRemoteUrl_result e owner isPrivate]
                               else xs);
          w' = w\<lparr>trace := trace w
                       @ (if rewrite then [NewC, ExpandRemoteUrlC owner isPrivate] else [])
                       @ [SysExecC argv]\<rparr>
      in case SysExec_result e argv of
           Inl err \<Rightarrow> (Inl (Exit 1), w'\<lparr>stderr := stderr w' @ [err @ ''\<newline>'']\<rparr>)
         | Inr status \<Rightarrow> (Inl (Exit status), w'))"
  proof (cases "2 \<le> length (Params args) \<and>
         (hd (Params args) = ''add'' \<or> hd (Params args) = ''set-url'')")
    case True
    show ?thesis
      unfolding remote_eq[of e args w] Let_def if_P[OF True]
      by (simp add: SysExec_eq split: sum.splits)
  next
    case False
    show ?thesis
      unfolding remote_eq[of e args w] Let_def if_not_P[OF False]
      by (simp add: SysExec_eq split: sum.splits)
  qed
  with n show ?thesis by blast
qed

text \<open>
  C6 as stated fails: with the latch set and the arguments "add jingweno" the handler
  resolves the URL through the hosting collaborator, executes the external binary, and
  prints nothing.
\<close>

theorem remote_noop_counterexample:
  "Noop \<lparr>Params = [''add'', ''jingweno''], Noop = True\<rparr> \<and>
   remote example_env \<lparr>Params = [''add'', ''jingweno''], Noop = True\<rparr> world0 =
     (Inl (Exit 0),
      \<lparr>stdout = [], stderr = [],
       trace = [NewC, ExpandRemoteUrlC ''jingweno'' False,
                SysExecC [''remote'', ''add'', ''jingweno'', ''git://github.com/jingweno/gh.git'']]\<rparr>)"
  by (simp add: remote_def transformRemoteArgs_def parseRemotePrivateFlag_def Size_def
      First_def IndexOf_def Remove_def Append_def Array_def Let_def SysExec_def
      example_env_def world0_def os_Exit_def bindp_def return_def invoke_def)

section \<open>The help command\<close>

text \<open>
  C4, as the code has it. With more than one remaining argument the help command
  reports "too many arguments" on standard error through \<open>log.Fatal\<close>, behind the date
  and time of the standard logger, and the process exits with status 1; nothing is
  printed on standard output and no collaborator is called.
\<close>

theorem runHelp_too_many_arguments:
  assumes "1 < length (Params args)"
  shows "runHelp lib reg args w =
           (Inl (Exit 1),
            w\<lparr>stderr := stderr w @ [formatHeader (log_clock lib) @ ''too many arguments\<newline>'']\<rparr>)"
  using assms
  by (auto simp add: runHelp_def IsEmpty_def Size_def log_Fatal_def log_Output_def os_Exit_def)

lemma example_header: "formatHeader (log_clock example_stdlib) = ''2013/06/01 09:05:00 ''"
  by (simp add: formatHeader_def example_stdlib_def digit_def)

theorem runHelp_too_many_arguments_witness:
  "1 < length (Params \<lparr>Params = [''remote'', ''add''], Noop = False\<rparr>) \<and>
   runHelp example_stdlib example_registry \<lparr>Params = [''remote'', ''add''], Noop = False\<rparr> world0 =
     (Inl (Exit 1),
      \<lparr>stdout = [], stderr = [''2013/06/01 09:05:00 too many arguments\<newline>''], trace = []\<rparr>)"
  using runHelp_too_many_arguments[of "\<lparr>Params = [''remote'', ''add''], Noop = False\<rparr>"
      example_stdlib example_registry world0]
  by (simp add: world0_def example_header)

text \<open>
  C4 as stated fails: with the two arguments "remote add" the exit status is 1, not 2.
\<close>

theorem runHelp_status_counterexample:
  "1 < length (Params \<lparr>Params = [''remote'', ''add''], Noop = False\<rparr>) \<and>
   fst (runHelp example_stdlib example_registry \<lparr>Params = [''remote'', ''add''], Noop = False\<rparr> world0)
     = Inl (Exit 1) \<and>
   fst (runHelp example_stdlib example_registry \<lparr>Params = [''remote'', ''add''], Noop = False\<rparr> world0)
     \<noteq> Inl (Exit 2)"
  by (simp add: runHelp_def IsEmpty_def Size_def log_Fatal_def log_Output_def os_Exit_def)

lemma range_commands_listed:
  "range_commands cs = concat (map usage_line (listed cs))"
  by (induction cs) (simp_all add: listed_def usage_line_def)

lemma count_listed:
  "count_list (listed cs) c = (if Runnable c \<and> List c then count_list cs c else 0)"
  by (induction cs) (auto simp: listed_def)

text \<open>
  C7, as the code has it. With no argument the help command writes the usage text once
  to standard output and returns to its caller without ending the process with an
  error status. Under each of the three category headings the text has one line per
  registered node that has a handler and is marked listable, in registration order: a
  node occurs in the listing of a category as often as it is registered there (once,
  when it is registered once), and a node without a handler or not marked listable
  does not occur.
\<close>

theorem runHelp_lists_runnable_listable:
  "runHelp lib reg \<lparr>Params = [], Noop = n\<rparr> w =
     (Inl Return,
      w\<lparr>stdout := stdout w @
        [''Usage: gh [command] [options] [arguments]\<newline>\<newline>Branching Commands:''
         @ concat (map usage_line (listed (Branching reg)))
         @ ''\<newline>\<newline>Remote Commands:''
         @ concat (map usage_line (listed (Remote reg)))
         @ ''\<newline>\<newline>GitHub Commands:''
         @ concat (map usage_line (listed (GitHub reg)))
         @ ''\<newline>\<newline>See 'gh help [command]' for more information about a command.\<newline>'']\<rparr>) \<and>
   subseq (listed cs) cs \<and>
   count_list (listed cs) c = (if Runnable c \<and> List c then count_list cs c else 0)"
proof -
  have "subseq (listed cs) cs" by (simp add: listed_def)
  then show ?thesis
    by (simp add: runHelp_def IsEmpty_def PrintUsage_def usageTemplate_def
        range_commands_listed count_listed handler_return_def)
qed

text \<open>
  C7 as stated fails: the node "pages" is registered in the first category and marked
  listable, but it has no handler, and the listing does not show it.
\<close>

theorem runHelp_listable_counterexample:
  "cmdRouter \<in> set (Branching example_registry) \<and> List cmdRouter \<and>
   runHelp example_stdlib example_registry \<lparr>Params = [], Noop = False\<rparr> world0 =
     (Inl Return,
      \<lparr>stdout =
         [''Usage: gh [command] [options] [arguments]\<newline>\<newline>Branching Commands:''
          @ ''\<newline>\<newline>Remote Commands:''
          @ ''\<newline>    remote            View and manage a set of remote repositories''
          @ ''\<newline>\<newline>GitHub Commands:''
          @ ''\<newline>    help              Show help''
          @ ''\<newline>\<newline>See 'gh help [command]' for more information about a command.\<newline>''],
       stderr = [], trace = []\<rparr>)"
  by (simp add: runHelp_def IsEmpty_def PrintUsage_def usageTemplate_def handler_return_def
      example_registry_def cmdRouter_def cmdRemote_def cmdHelp_def world0_def printf_left16_def
      eval_nat_numeral)

section \<open>Quiet steps\<close>


lemma quiet_return [simp]: "quiet obs (return x)"
  by (simp add: quiet_def return_def)

lemma quiet_os_Exit [simp]: "quiet obs (os_Exit n)"
  by (simp add: quiet_def os_Exit_def)

lemma quiet_handler_return [simp]: "quiet obs handler_return"
  by (simp add: quiet_def handler_return_def)


lemma quiet_Check_api [simp]: "quiet api_calls (Check err)"
  by (cases err) (simp_all add: quiet_def api_calls_def return_def)

lemma quiet_Check_Some_bindp [simp]: "quiet api_calls (bindp (Check (Some err)) f)"
  by (simp add: quiet_def api_calls_def)

lemma quiet_write_stdout_api [simp]: "quiet api_calls (write_stdout s)"
  by (simp add: quiet_def api_calls_def write_stdout_def)

lemma quiet_write_stderr_api [simp]: "quiet api_calls (write_stderr s)"
  by (simp add: quiet_def api_calls_def write_stderr_def)

lemma quiet_invoke_api [simp]: "\<not> hosting_api_call c \<Longrightarrow> quiet api_calls (invoke c)"
  by (simp add: quiet_def api_calls_def invoke_def)

lemma quiet_checked_api [simp]: "\<not> hosting_api_call c \<Longrightarrow> quiet api_calls (checked c r)"
  by (cases r) (simp_all add: quiet_def api_calls_def)

section \<open>Cutting an asset token at the first "#"\<close>

lemma Index_char:
  "Index s [c] = (if c \<in> set s then Some (length (takeWhile (\<lambda>x. x \<noteq> c) s)) else None)"
  by (induction s) auto

lemma splitAsset_eq:
  "splitAsset a =
     Some (if CHR ''#'' \<in> set a
           then (takeWhile (\<lambda>c. c \<noteq> CHR ''#'') a, tl (dropWhile (\<lambda>c. c \<noteq> CHR ''#'') a))
           else (a, []))"
proof (cases a)
  case Nil
  then show ?thesis by (simp add: splitAsset_def SplitN_def)
next
  case (Cons x xs)
  then have k: "min 2 (length a + 1) - 1 = Suc 0" by simp
  have d: "drop (Suc (length (takeWhile (\<lambda>c. c \<noteq> CHR ''#'') a))) a
             = tl (dropWhile (\<lambda>c. c \<noteq> CHR ''#'') a)"
    by (simp add: dropWhile_eq_drop drop_Suc tl_drop)
  have t: "take (length (takeWhile (\<lambda>c. c \<noteq> CHR ''#'') a)) a = takeWhile (\<lambda>c. c \<noteq> CHR ''#'') a"
    by (metis takeWhile_eq_take)
  show ?thesis
    unfolding splitAsset_def SplitN_def k
    by (simp add: Index_char d t Let_def del: takeWhile.simps dropWhile.simps)
qed

lemma splitAsset_parts:
  assumes "CHR ''#'' \<in> set a"
  shows "\<exists>f l. splitAsset a = Some (f, l) \<and> a = f @ ''#'' @ l \<and> CHR ''#'' \<notin> set f"
proof -
  let ?f = "takeWhile (\<lambda>c. c \<noteq> CHR ''#'') a"
  let ?d = "dropWhile (\<lambda>c. c \<noteq> CHR ''#'') a"
  from assms have "?d \<noteq> []" by (simp add: dropWhile_eq_Nil_conv)
  moreover from this have "hd ?d = CHR ''#''" using hd_dropWhile[of "\<lambda>c. c \<noteq> CHR ''#''" a] by simp
  ultimately have "?d = CHR ''#'' # tl ?d" by (cases ?d) simp_all
  then have "a = ?f @ ''#'' @ tl ?d" by (metis append_Cons append_Nil takeWhile_dropWhile_id)
  moreover have "CHR ''#'' \<notin> set ?f" by (auto dest: set_takeWhileD)
  ultimately show ?thesis using assms by (simp add: splitAsset_eq)
qed

lemma splitAsset_Some: "\<exists>f l. splitAsset a = Some (f, l)"
  by (cases "CHR ''#'' \<in> set a") (simp_all add: splitAsset_eq)

section \<open>The upload of the assets\<close>

lemma uploadAssets_noop:
  "Noop args \<Longrightarrow>
   \<exists>errs. uploadAssets e rel assets args w = (Inr (), w\<lparr>stderr := stderr w @ errs\<rparr>)"
proof (induction assets arbitrary: w)
  case Nil
  show ?case by (intro exI[of _ "[]"]) (simp add: return_def)
next
  case (Cons a assets)
  obtain f l where s: "splitAsset a = Some (f, l)" using splitAsset_Some by blast
  show ?case
  proof (cases "l = []")
    case True
    from Cons.IH[OF Cons.prems] obtain errs where
      "uploadAssets e rel assets args
         (w\<lparr>stderr := stderr w @ [''Would attach release asset `'' @ f @ '''\<newline>'']\<rparr>)
       = (Inr (), w\<lparr>stderr := stderr w @ [''Would attach release asset `'' @ f @ '''\<newline>'']\<rparr>
                   \<lparr>stderr := stderr (w\<lparr>stderr := stderr w @ [''Would attach release asset `'' @ f @ '''\<newline>'']\<rparr>) @ errs\<rparr>)"
      by blast
    with True s Cons.prems show ?thesis
      by (intro exI[of _ "[''Would attach release asset `'' @ f @ '''\<newline>''] @ errs"]) simp
  next
    case False
    let ?m = "''Would attach release asset `'' @ f @ ''' with label `'' @ l @ '''\<newline>''"
    from Cons.IH[OF Cons.prems] obtain errs where
      "uploadAssets e rel assets args (w\<lparr>stderr := stderr w @ [?m]\<rparr>)
       = (Inr (), w\<lparr>stderr := stderr w @ [?m]\<rparr>
                   \<lparr>stderr := stderr (w\<lparr>stderr := stderr w @ [?m]\<rparr>) @ errs\<rparr>)"
      by blast
    with False s Cons.prems show ?thesis
      by (intro exI[of _ "[?m] @ errs"]) simp
  qed
qed


lemma uploadAssets_step_ok:
  assumes "\<not> Noop args" and "upload_answer e r a = None"
  shows "uploadAssets e (Some r) (a # assets) args w =
           uploadAssets e (Some r) assets args
             (w\<lparr>stderr := stderr w @ [''Attaching release asset `'' @ fst (the (splitAsset a)) @ '''...\<newline>''],
                trace := trace w @ [upload_call r a]\<rparr>)"
proof -
  obtain f l where s: "splitAsset a = Some (f, l)" using splitAsset_Some by blast
  with assms show ?thesis
    by (simp add: upload_answer_def upload_call_def UploadReleaseAsset_def bindp_assoc)
qed

lemma uploadAssets_step_fail:
  assumes "\<not> Noop args" and "upload_answer e r a = Some err"
  shows "uploadAssets e (Some r) (a # assets) args w =
           (Inl (Exit 1),
            w\<lparr>stderr := stderr w @ [''Attaching release asset `'' @ fst (the (splitAsset a)) @ '''...\<newline>'',
                                     err @ ''\<newline>''],
              trace := trace w @ [upload_call r a]\<rparr>)"
proof -
  obtain f l where s: "splitAsset a = Some (f, l)" using splitAsset_Some by blast
  with assms show ?thesis
    by (simp add: upload_answer_def upload_call_def UploadReleaseAsset_def bindp_assoc)
qed

lemma uploadAssets_fails:
  assumes "\<not> Noop args"
    and "i < length assets"
    and "\<forall>j<i. upload_answer e r (assets ! j) = None"
    and "upload_answer e r (assets ! i) = Some err"
  shows "\<exists>errs. uploadAssets e (Some r) assets args w =
           (Inl (Exit 1),
            w\<lparr>stderr := stderr w @ errs @ [err @ ''\<newline>''],
              trace := trace w @ map (upload_call r) (take (Suc i) assets)\<rparr>)"
  using assms(2-4)
proof (induction assets arbitrary: i w)
  case Nil
  then show ?case by simp
next
  case (Cons a assets)
  show ?case
  proof (cases i)
    case 0
    with Cons.prems have "upload_answer e r a = Some err" by simp
    from uploadAssets_step_fail[OF assms(1) this, of assets w] 0 show ?thesis
      by (intro exI[of _ "[''Attaching release asset `'' @ fst (the (splitAsset a)) @ '''...\<newline>'']"])
         simp
  next
    case (Suc k)
    with Cons.prems have ok: "upload_answer e r a = None" by auto
    from Suc Cons.prems have k: "k < length assets"
      "\<forall>j<k. upload_answer e r (assets ! j) = None"
      "upload_answer e r (assets ! k) = Some err" by auto
    let ?w = "w\<lparr>stderr := stderr w @ [''Attaching release asset `'' @ fst (the (splitAsset a)) @ '''...\<newline>''],
                trace := trace w @ [upload_call r a]\<rparr>"
    from Cons.IH[OF k, of ?w] obtain errs where
      "uploadAssets e (Some r) assets args ?w =
         (Inl (Exit 1),
          ?w\<lparr>stderr := stderr ?w @ errs @ [err @ ''\<newline>''],
             trace := trace ?w @ map (upload_call r) (take (Suc k) assets)\<rparr>)" by blast
    with Suc show ?thesis
      unfolding uploadAssets_step_ok[OF assms(1) ok]
      by (intro exI[of _ "[''Attaching release asset `'' @ fst (the (splitAsset a)) @ '''...\<newline>''] @ errs"])
         simp
  qed
qed

section \<open>The release handlers\<close>


lemma quiet_checked_value [simp]:
  "quiet api_calls (case r of Inl err \<Rightarrow> bindp (Check (Some (Failed err))) (\<lambda>_. panic m)
                            | Inr v \<Rightarrow> bindp (Check None) (\<lambda>_. return v))"
  by (cases r) simp_all




lemma createRelease_reaches_finish:
  assumes "createRelease_setup e fl args w = (Inr (tagName, project, commitish), w1)"
    and "createRelease_message e fl tagName project commitish w1 = (Inr (title, body), w2)"
  shows "createRelease e fl args w =
           createRelease_finish e fl args tagName project commitish title body w2"
  using assms by (simp add: createRelease_def bindp_def)

lemma createRelease_finish_noop:
  assumes "Noop args" and "title \<noteq> []"
  shows "\<exists>errs. createRelease_finish e fl args tagName project commitish title body w =
           (Inl (Exit 0),
            w\<lparr>stdout := stdout w @ [''Would create release `'' @ title @ ''' for ''
                                     @ project_String project @ '' with tag name `''
                                     @ tagName @ '''\<newline>''],
              stderr := stderr w @ errs\<rparr>)"
proof -
  let ?w = "w\<lparr>stdout := stdout w @ [''Would create release `'' @ title @ ''' for ''
                                     @ project_String project @ '' with tag name `''
                                     @ tagName @ '''\<newline>'']\<rparr>"
  from uploadAssets_noop[OF assms(1), of e None "flagReleaseAssets fl" ?w] obtain errs where
    u: "uploadAssets e None (flagReleaseAssets fl) args ?w = (Inr (), ?w\<lparr>stderr := stderr ?w @ errs\<rparr>)"
    by blast
  have "createRelease_finish e fl args tagName project commitish title body w =
          bindp (uploadAssets e None (flagReleaseAssets fl) args) (\<lambda>_. os_Exit 0) ?w"
    using assms by (simp add: createRelease_finish_def Let_def bindp_assoc)
  also have "\<dots> = (Inl (Exit 0), ?w\<lparr>stderr := stderr ?w @ errs\<rparr>)"
    using u by (simp add: bindp_def os_Exit_def)
  finally show ?thesis by (intro exI[of _ errs]) simp
qed

lemma splitAsset_parts_eq: "splitAsset a = Some (asset_filename a, asset_label a)"
proof (cases "CHR ''#'' \<in> set a")
  case True
  then show ?thesis
    by (simp add: splitAsset_eq asset_filename_def asset_label_def drop_Suc)
next
  case False
  then have tw: "takeWhile (\<lambda>c. c \<noteq> CHR ''#'') a = a"
    and dw: "dropWhile (\<lambda>c. c \<noteq> CHR ''#'') a = []"
    by (auto simp: takeWhile_eq_all_conv)
  show ?thesis
    unfolding splitAsset_eq asset_filename_def asset_label_def tw dw if_not_P[OF False]
    by simp
qed

lemma uploadAssets_noop_lines:
  "Noop args \<Longrightarrow>
   uploadAssets e rel assets args w =
     (Inr (), w\<lparr>stderr := stderr w @ map would_attach_line assets\<rparr>)"
proof (induction assets arbitrary: w)
  case Nil
  show ?case by (simp add: return_def)
next
  case (Cons a assets)
  show ?case
  proof (cases "asset_label a = []")
    case True
    with Cons.prems show ?thesis
      by (simp add: splitAsset_parts_eq Cons.IH[OF Cons.prems] would_attach_line_def)
  next
    case False
    with Cons.prems show ?thesis
      by (simp add: splitAsset_parts_eq Cons.IH[OF Cons.prems] would_attach_line_def)
  qed
qed

lemma uploadAssets_all_ok:
  assumes "\<not> Noop args"
    and "\<forall>a\<in>set assets. UploadReleaseAsset_result e r (asset_filename a) (asset_label a) = None"
  shows "uploadAssets e (Some r) assets args w =
     (Inr (), w\<lparr>stderr := stderr w @ map attaching_line assets,
                 trace := trace w @ map (\<lambda>a. UploadReleaseAssetC r (asset_filename a) (asset_label a))
                                        assets\<rparr>)"
  using assms(2)
proof (induction assets arbitrary: w)
  case Nil
  show ?case by (simp add: return_def)
next
  case (Cons a assets)
  from Cons.prems have ok: "UploadReleaseAsset_result e r (asset_filename a) (asset_label a) = None"
    and rest: "\<forall>a\<in>set assets. UploadReleaseAsset_result e r (asset_filename a) (asset_label a) = None"
    by simp_all
  from assms(1) ok show ?case
    by (simp add: splitAsset_parts_eq UploadReleaseAsset_def bindp_assoc Cons.IH[OF rest]
        attaching_line_def)
qed

section \<open>The checks of the create handler\<close>



lemma setup_passes_unique:
  "setup_passes e fl args p c \<Longrightarrow> setup_passes e fl args p' c' \<Longrightarrow> p = p' \<and> c = c'"
  by (auto simp: setup_passes_def split: if_splits)



lemma message_passes_unique:
  "message_passes e fl tagName p c t b \<Longrightarrow> message_passes e fl tagName p c t' b' \<Longrightarrow>
   t = t' \<and> b = b'"
  by (auto simp: message_passes_def split: if_splits)



lemma checks_pass_unique:
  "checks_pass e fl args p c t b \<Longrightarrow> checks_pass e fl args p' c' t' b' \<Longrightarrow>
   p = p' \<and> c = c' \<and> t = t' \<and> b = b'"
  using setup_passes_unique message_passes_unique unfolding checks_pass_def by blast

text \<open>
  C3. With no remaining positional argument the tag name is the empty string, and both
  the show handler and the create handler hand the error "Missing argument TAG", which
  they build themselves, to \<open>utils.Check\<close> before anything else: the message goes to
  standard error, the process exits with the status of a usage error, 2, and no
  external collaborator is invoked.
\<close>

theorem missing_tag_is_usage_error:
  assumes "Params args = []"
  shows "showRelease e fl args w =
           (Inl (Exit 2), w\<lparr>stderr := stderr w @ [''Missing argument TAG\<newline>'']\<rparr>) \<and>
         createRelease e fl args w =
           (Inl (Exit 2), w\<lparr>stderr := stderr w @ [''Missing argument TAG\<newline>'']\<rparr>)"
proof -
  from assms have "createRelease_setup e fl args w =
      (Inl (Exit 2), w\<lparr>stderr := stderr w @ [''Missing argument TAG\<newline>'']\<rparr>)"
    by (simp add: createRelease_setup_def LastParam_def)
  then have "createRelease e fl args w =
      (Inl (Exit 2), w\<lparr>stderr := stderr w @ [''Missing argument TAG\<newline>'']\<rparr>)"
    by (simp add: createRelease_def bindp_def)
  moreover from assms have "showRelease e fl args w =
      (Inl (Exit 2), w\<lparr>stderr := stderr w @ [''Missing argument TAG\<newline>'']\<rparr>)"
    by (simp add: showRelease_def LastParam_def)
  ultimately show ?thesis by simp
qed

theorem missing_tag_is_usage_error_witness:
  "Params \<lparr>Params = [], Noop = False\<rparr> = [] \<and>
   showRelease example_env release_flags_default \<lparr>Params = [], Noop = False\<rparr> world0 =
     (Inl (Exit 2), \<lparr>stdout = [], stderr = [''Missing argument TAG\<newline>''], trace = []\<rparr>) \<and>
   createRelease example_env release_flags_default \<lparr>Params = [], Noop = False\<rparr> world0 =
     (Inl (Exit 2), \<lparr>stdout = [], stderr = [''Missing argument TAG\<newline>''], trace = []\<rparr>)"
  using missing_tag_is_usage_error[of "\<lparr>Params = [], Noop = False\<rparr>" example_env
      release_flags_default world0]
  by (simp add: world0_def)


lemma example_setup:
  "createRelease_setup example_env fl \<lparr>Params = [''v1.0''], Noop = n\<rparr> world0 =
     (if flagReleaseCommitish fl = []
      then (Inr (''v1.0'', example_project, ''master''),
            \<lparr>stdout = [], stderr = [],
             trace = [LocalRepoC, CurrentProjectC, NewClientC ''github.com'', CurrentBranchC]\<rparr>)
      else (Inr (''v1.0'', example_project, flagReleaseCommitish fl),
            \<lparr>stdout = [], stderr = [],
             trace = [LocalRepoC, CurrentProjectC, NewClientC ''github.com'']\<rparr>))"
  by (simp add: createRelease_setup_def LastParam_def example_env_def example_project_def
      world0_def bindp_def return_def invoke_def)

lemma example_message:
  "createRelease_message example_env (release_flags_default\<lparr>flagReleaseMessage := ''Title'',
       flagReleaseAssets := assets\<rparr>) tagName project commitish w = (Inr (''Title'', []), w)"
  by (simp add: createRelease_message_def example_env_def release_flags_default_def return_def)




text \<open>
  C9, on the code. With an empty message flag and the file flag "notes.md" the create
  handler does not read notes.md: it calls \<open>readMsgFromFile\<close> with the value of the
  message flag, the empty string. Here that read fails and the process exits with
  status 1, although notes.md could have been read.
\<close>

theorem createRelease_file_flag_reads_message_name:
  "flagReleaseMessage (release_flags_default\<lparr>flagReleaseFile := ''notes.md''\<rparr>) = [] \<and>
   readMsgFromFile_result example_env ''notes.md'' = Inr (''Title from file'', ''Body from file'') \<and>
   createRelease example_env (release_flags_default\<lparr>flagReleaseFile := ''notes.md''\<rparr>)
       \<lparr>Params = [''v1.0''], Noop = False\<rparr> world0 =
     (Inl (Exit 1),
      \<lparr>stdout = [],
       stderr = [''open : no such file or directory\<newline>''],
       trace = [LocalRepoC, CurrentProjectC, NewClientC ''github.com'', CurrentBranchC,
                ReadMsgFromFileC []]\<rparr>)"
proof -
  let ?fl = "release_flags_default\<lparr>flagReleaseFile := ''notes.md''\<rparr>"
  have s: "createRelease_setup example_env ?fl \<lparr>Params = [''v1.0''], Noop = False\<rparr> world0 =
      (Inr (''v1.0'', example_project, ''master''),
            \<lparr>stdout = [], stderr = [],
             trace = [LocalRepoC, CurrentProjectC, NewClientC ''github.com'', CurrentBranchC]\<rparr>)"
    by (simp add: example_setup release_flags_default_def)
  have c: "createRelease example_env ?fl \<lparr>Params = [''v1.0''], Noop = False\<rparr> world0 =
     (Inl (Exit 1),
      \<lparr>stdout = [],
       stderr = [''open : no such file or directory\<newline>''],
       trace = [LocalRepoC, CurrentProjectC, NewClientC ''github.com'', CurrentBranchC,
                ReadMsgFromFileC []]\<rparr>)"
  proof -
    have m: "createRelease_message example_env ?fl ''v1.0'' example_project ''master''
               \<lparr>stdout = [], stderr = [],
                trace = [LocalRepoC, CurrentProjectC, NewClientC ''github.com'', CurrentBranchC]\<rparr> =
             (Inl (Exit 1),
              \<lparr>stdout = [],
               stderr = [''open : no such file or directory\<newline>''],
               trace = [LocalRepoC, CurrentProjectC, NewClientC ''github.com'', CurrentBranchC,
                        ReadMsgFromFileC []]\<rparr>)"
      by (simp add: createRelease_message_def release_flags_default_def example_env_def)
    show ?thesis
      by (simp add: createRelease_def bindp_def s m)
  qed
  show ?thesis
    using c by (simp add: release_flags_default_def example_env_def)
qed

lemma createRelease_finish_created:
  assumes "\<not> Noop args" and "title \<noteq> []"
    and "CreateRelease_result e project (release_params fl tagName commitish title body) = Inr rel"
  shows "createRelease_finish e fl args tagName project commitish title body w =
           bindp (uploadAssets e (Some rel) (flagReleaseAssets fl) args) (\<lambda>_. os_Exit 0)
             (w\<lparr>trace := trace w @ [CreateReleaseC project
                                       (release_params fl tagName commitish title body)],
                stdout := stdout w @ [HtmlUrl rel @ ''\<newline>'']\<rparr>)"
  using assms
  by (simp add: createRelease_finish_def Let_def bindp_assoc)
     (simp add: bindp_def write_stdout_def)

text \<open>
  C8. In the create handler, once the release has been created, a failing asset
  upload ends the process at once through \<open>utils.Check\<close>: the assets before it have
  been uploaded, the failing upload is the last call made to any collaborator, the
  later assets are not uploaded, and nothing is called that would delete or undo the
  release. The creation is in the trace once, before the uploads.
\<close>

theorem upload_failure_no_rollback:
  assumes "\<not> Noop args"
    and "createRelease_setup e fl args w = (Inr (tagName, project, commitish), w1)"
    and "createRelease_message e fl tagName project commitish w1 = (Inr (title, body), w2)"
    and "title \<noteq> []"
    and "CreateRelease_result e project (release_params fl tagName commitish title body) = Inr rel"
    and "i < length (flagReleaseAssets fl)"
    and "\<forall>j<i. upload_answer e rel (flagReleaseAssets fl ! j) = None"
    and "upload_answer e rel (flagReleaseAssets fl ! i) = Some err"
  shows "fst (createRelease e fl args w) = Inl (Exit 1) \<and>
         trace (snd (createRelease e fl args w)) =
           trace w2 @ CreateReleaseC project (release_params fl tagName commitish title body)
                    # map (upload_call rel) (take (Suc i) (flagReleaseAssets fl)) \<and>
         stdout (snd (createRelease e fl args w)) = stdout w2 @ [HtmlUrl rel @ ''\<newline>''] \<and>
         last (stderr (snd (createRelease e fl args w))) = err @ ''\<newline>''"
proof -
  let ?w = "w2\<lparr>trace := trace w2 @ [CreateReleaseC project
                                       (release_params fl tagName commitish title body)],
                stdout := stdout w2 @ [HtmlUrl rel @ ''\<newline>'']\<rparr>"
  from uploadAssets_fails[OF assms(1) assms(6) assms(7) assms(8), of ?w] obtain errs where
    u: "uploadAssets e (Some rel) (flagReleaseAssets fl) args ?w =
           (Inl (Exit 1),
            ?w\<lparr>stderr := stderr ?w @ errs @ [err @ ''\<newline>''],
               trace := trace ?w @ map (upload_call rel) (take (Suc i) (flagReleaseAssets fl))\<rparr>)"
    by blast
  have "createRelease e fl args w =
          bindp (uploadAssets e (Some rel) (flagReleaseAssets fl) args) (\<lambda>_. os_Exit 0) ?w"
    by (simp only: createRelease_reaches_finish[OF assms(2) assms(3)]
        createRelease_finish_created[OF assms(1) assms(4) assms(5)])
  also have "\<dots> = (Inl (Exit 1),
            ?w\<lparr>stderr := stderr ?w @ errs @ [err @ ''\<newline>''],
               trace := trace ?w @ map (upload_call rel) (take (Suc i) (flagReleaseAssets fl))\<rparr>)"
    using u by (simp add: bindp_def)
  finally show ?thesis by simp
qed

theorem upload_failure_no_rollback_witness:
  "\<not> Noop \<lparr>Params = [''v1.0''], Noop = False\<rparr> \<and>
   createRelease example_env
     (release_flags_default\<lparr>flagReleaseMessage := ''Title'',
                             flagReleaseAssets := [''a.zip'', ''missing.zip#label'', ''c.zip'']\<rparr>)
     \<lparr>Params = [''v1.0''], Noop = False\<rparr> world0 =
   (Inl (Exit 1),
    \<lparr>stdout = [''https://github.com/jingweno/gh/releases/v1.0\<newline>''],
     stderr = [''Attaching release asset `a.zip'...\<newline>'',
               ''Attaching release asset `missing.zip'...\<newline>'',
               ''open missing.zip: no such file or directory\<newline>''],
     trace = [LocalRepoC, CurrentProjectC, NewClientC ''github.com'', CurrentBranchC,
              CreateReleaseC example_project
                \<lparr>TagName = ''v1.0'', TargetCommitish = ''master'', release_Name = ''Title'',
                 Body = [], Draft = False, Prerelease = False, HtmlUrl = [],
                 ZipballUrl = [], TarballUrl = [], Assets = []\<rparr>,
              UploadReleaseAssetC
                \<lparr>TagName = ''v1.0'', TargetCommitish = ''master'', release_Name = ''Title'',
                 Body = [], Draft = False, Prerelease = False,
                 HtmlUrl = ''https://github.com/jingweno/gh/releases/v1.0'',
                 ZipballUrl = [], TarballUrl = [], Assets = []\<rparr> ''a.zip'' [],
              UploadReleaseAssetC
                \<lparr>TagName = ''v1.0'', TargetCommitish = ''master'', release_Name = ''Title'',
                 Body = [], Draft = False, Prerelease = False,
                 HtmlUrl = ''https://github.com/jingweno/gh/releases/v1.0'',
                 ZipballUrl = [], TarballUrl = [], Assets = []\<rparr> ''missing.zip'' ''label'']\<rparr>)"
proof -
  let ?assets = "[''a.zip'', ''missing.zip#label'', ''c.zip'']"
  let ?fl = "release_flags_default\<lparr>flagReleaseMessage := ''Title'', flagReleaseAssets := ?assets\<rparr>"
  let ?a = "\<lparr>Params = [''v1.0''], Noop = False\<rparr>"
  let ?w1 = "\<lparr>stdout = [], stderr = [],
             trace = [LocalRepoC, CurrentProjectC, NewClientC ''github.com'', CurrentBranchC]\<rparr>"
  let ?p = "release_params ?fl ''v1.0'' ''master'' ''Title'' []"
  let ?rel = "?p\<lparr>HtmlUrl := ''https://github.com/jingweno/gh/releases/v1.0''\<rparr>"
  have n: "\<not> Noop ?a" by simp
  have s: "createRelease_setup example_env ?fl ?a world0 =
             (Inr (''v1.0'', example_project, ''master''), ?w1)"
    by (simp add: example_setup release_flags_default_def)
  have m: "createRelease_message example_env ?fl ''v1.0'' example_project ''master'' ?w1 =
             (Inr (''Title'', []), ?w1)"
    by (rule example_message)
  have t: "''Title'' \<noteq> []" by simp
  have c: "CreateRelease_result example_env example_project ?p = Inr ?rel"
    by (simp add: example_env_def release_params_def)
  have i: "(1::nat) < length (flagReleaseAssets ?fl)" by simp
  have sa: "splitAsset ''a.zip'' = Some (''a.zip'', [])"
    and sm: "splitAsset ''missing.zip#label'' = Some (''missing.zip'', ''label'')"
    by (simp_all add: splitAsset_eq)
  have ok: "\<forall>j<1::nat. upload_answer example_env ?rel (flagReleaseAssets ?fl ! j) = None"
    by (simp add: upload_answer_def sa example_env_def)
  have bad: "upload_answer example_env ?rel (flagReleaseAssets ?fl ! 1) =
               Some ''open missing.zip: no such file or directory''"
    by (simp add: upload_answer_def sm example_env_def)
  have calls: "map (upload_call ?rel) (take (Suc 1) (flagReleaseAssets ?fl)) =
      [UploadReleaseAssetC ?rel ''a.zip'' [], UploadReleaseAssetC ?rel ''missing.zip'' ''label'']"
    by (simp add: upload_call_def sa sm)
  obtain out w' where r: "createRelease example_env ?fl ?a world0 = (out, w')"
    by (cases "createRelease example_env ?fl ?a world0")
  from upload_failure_no_rollback[OF n s m t c i ok bad]
  have f: "out = Inl (Exit 1)"
    and tr: "trace w' = trace ?w1 @ CreateReleaseC example_project ?p
               # [UploadReleaseAssetC ?rel ''a.zip'' [], UploadReleaseAssetC ?rel ''missing.zip'' ''label'']"
    and so: "stdout w' = stdout ?w1 @ [HtmlUrl ?rel @ ''\<newline>'']"
    unfolding r calls by simp_all
  have direct: "createRelease example_env ?fl ?a world0 =
      bindp (uploadAssets example_env (Some ?rel) ?assets ?a) (\<lambda>_. os_Exit 0)
        (?w1\<lparr>trace := trace ?w1 @ [CreateReleaseC example_project ?p],
              stdout := stdout ?w1 @ [HtmlUrl ?rel @ ''\<newline>'']\<rparr>)"
    using createRelease_finish_created[OF n t c, of ?w1]
    by (simp add: createRelease_reaches_finish[OF s m])
  have "stderr w' = [''Attaching release asset `a.zip'...\<newline>'',
               ''Attaching release asset `missing.zip'...\<newline>'',
               ''open missing.zip: no such file or directory\<newline>'']"
    using r[symmetric] unfolding direct
    by (simp add: sa sm bindp_def UploadReleaseAsset_def example_env_def invoke_def return_def
        write_stderr_def)
  with f tr so r n show ?thesis
    by (cases w') (simp add: release_params_def release_flags_default_def)
qed




section \<open>The attach flag\<close>

lemma lookup_attach_short:
  "lookup_flag cmdCreateRelease_Flag ''-a'' =
     Found (VarP (\<lambda>v fl. fl\<lparr>flagReleaseAssets := stringSliceValue_Set v (flagReleaseAssets fl)\<rparr>)
                 ''attach'' ''a'') None"
  by (simp add: lookup_flag_def cmdCreateRelease_Flag_def)

lemma lookup_attach_long:
  "lookup_flag cmdCreateRelease_Flag ''--attach'' =
     Found (VarP (\<lambda>v fl. fl\<lparr>flagReleaseAssets := stringSliceValue_Set v (flagReleaseAssets fl)\<rparr>)
                 ''attach'' ''a'') None"
  by (simp add: lookup_flag_def lookup_long_def cmdCreateRelease_Flag_def)

lemma lookup_attach_joined:
  "lookup_flag cmdCreateRelease_Flag (''--attach='' @ v) =
     Found (VarP (\<lambda>v fl. fl\<lparr>flagReleaseAssets := stringSliceValue_Set v (flagReleaseAssets fl)\<rparr>)
                 ''attach'' ''a'') (Some v)"
  by (simp add: lookup_flag_def lookup_long_def cmdCreateRelease_Flag_def)

lemma parse_attach_tokens:
  "parse cmdCreateRelease_Flag (attach_tokens kv @ ts) fl =
     parse cmdCreateRelease_Flag ts (fl\<lparr>flagReleaseAssets := flagReleaseAssets fl @ [snd kv]\<rparr>)"
proof (cases kv)
  case (Pair form v)
  have j: "parse cmdCreateRelease_Flag ((''--attach='' @ v) # ts) fl =
        parse cmdCreateRelease_Flag ts (fl\<lparr>flagReleaseAssets := flagReleaseAssets fl @ [v]\<rparr>)"
    by (simp only: parse.simps lookup_attach_joined) (simp add: stringSliceValue_Set_def)
  have s: "parse cmdCreateRelease_Flag (''-a'' # v # ts) fl =
        parse cmdCreateRelease_Flag ts (fl\<lparr>flagReleaseAssets := flagReleaseAssets fl @ [v]\<rparr>)"
    by (simp only: parse.simps lookup_attach_short) (simp add: stringSliceValue_Set_def)
  have l: "parse cmdCreateRelease_Flag (''--attach'' # v # ts) fl =
        parse cmdCreateRelease_Flag ts (fl\<lparr>flagReleaseAssets := flagReleaseAssets fl @ [v]\<rparr>)"
    by (simp only: parse.simps lookup_attach_long) (simp add: stringSliceValue_Set_def)
  consider "form = 0" | "form = 1" | "form \<noteq> 0 \<and> form \<noteq> 1" by blast
  then show ?thesis
  proof cases
    case 1
    then show ?thesis unfolding Pair by (simp add: s del: parse.simps)
  next
    case 2
    then show ?thesis unfolding Pair by (simp add: l del: parse.simps)
  next
    case 3
    then show ?thesis unfolding Pair using j by (simp del: parse.simps)
  qed
qed

lemma parse_attach_all:
  "parse cmdCreateRelease_Flag (concat (map attach_tokens kvs)) fl =
     Inr (fl\<lparr>flagReleaseAssets := flagReleaseAssets fl @ map snd kvs\<rparr>, [])"
proof (induction kvs arbitrary: fl)
  case Nil
  show ?case by simp
next
  case (Cons kv kvs)
  show ?case
    by (simp only: list.map concat.simps parse_attach_tokens Cons.IH) simp
qed

lemma lookup_switches:
  "lookup_flag cmdCreateRelease_Flag ''-d'' =
     Found (BoolVarP (\<lambda>b fl. fl\<lparr>flagReleaseDraft := b\<rparr>) ''draft'' ''d'') None"
  "lookup_flag cmdCreateRelease_Flag ''--draft'' =
     Found (BoolVarP (\<lambda>b fl. fl\<lparr>flagReleaseDraft := b\<rparr>) ''draft'' ''d'') None"
  "lookup_flag cmdCreateRelease_Flag ''-p'' =
     Found (BoolVarP (\<lambda>b fl. fl\<lparr>flagReleasePrerelease := b\<rparr>) ''prerelease'' ''p'') None"
  "lookup_flag cmdCreateRelease_Flag ''--prerelease'' =
     Found (BoolVarP (\<lambda>b fl. fl\<lparr>flagReleasePrerelease := b\<rparr>) ''prerelease'' ''p'') None"
  by (simp_all add: lookup_flag_def lookup_long_def cmdCreateRelease_Flag_def)

lemma lookup_valued:
  "lookup_flag cmdCreateRelease_Flag ''-m'' =
     Found (StringVarP (\<lambda>v fl. fl\<lparr>flagReleaseMessage := v\<rparr>) ''message'' ''m'') None"
  "lookup_flag cmdCreateRelease_Flag ''--message'' =
     Found (StringVarP (\<lambda>v fl. fl\<lparr>flagReleaseMessage := v\<rparr>) ''message'' ''m'') None"
  "lookup_flag cmdCreateRelease_Flag ''-f'' =
     Found (StringVarP (\<lambda>v fl. fl\<lparr>flagReleaseFile := v\<rparr>) ''file'' ''f'') None"
  "lookup_flag cmdCreateRelease_Flag ''--file'' =
     Found (StringVarP (\<lambda>v fl. fl\<lparr>flagReleaseFile := v\<rparr>) ''file'' ''f'') None"
  "lookup_flag cmdCreateRelease_Flag ''-c'' =
     Found (StringVarP (\<lambda>v fl. fl\<lparr>flagReleaseCommitish := v\<rparr>) ''commitish'' ''c'') None"
  "lookup_flag cmdCreateRelease_Flag ''--commitish'' =
     Found (StringVarP (\<lambda>v fl. fl\<lparr>flagReleaseCommitish := v\<rparr>) ''commitish'' ''c'') None"
  by (simp_all add: lookup_flag_def lookup_long_def cmdCreateRelease_Flag_def)

lemma parse_switch:
  assumes "t \<in> set [''-d'', ''--draft'', ''-p'', ''--prerelease'']"
  shows "\<exists>fl1. parse cmdCreateRelease_Flag (t # ts) fl = parse cmdCreateRelease_Flag ts fl1 \<and>
               flagReleaseAssets fl1 = flagReleaseAssets fl"
proof -
  from assms consider "t = ''-d''" | "t = ''--draft''" | "t = ''-p''" | "t = ''--prerelease''"
    by auto
  then show ?thesis
  proof cases
    case 1
    have "parse cmdCreateRelease_Flag (''-d'' # ts) fl =
            parse cmdCreateRelease_Flag ts (fl\<lparr>flagReleaseDraft := True\<rparr>)"
      by (simp only: parse.simps lookup_switches) simp
    with 1 show ?thesis by (intro exI[of _ "fl\<lparr>flagReleaseDraft := True\<rparr>"]) simp
  next
    case 2
    have "parse cmdCreateRelease_Flag (''--draft'' # ts) fl =
            parse cmdCreateRelease_Flag ts (fl\<lparr>flagReleaseDraft := True\<rparr>)"
      by (simp only: parse.simps lookup_switches) simp
    with 2 show ?thesis by (intro exI[of _ "fl\<lparr>flagReleaseDraft := True\<rparr>"]) simp
  next
    case 3
    have "parse cmdCreateRelease_Flag (''-p'' # ts) fl =
            parse cmdCreateRelease_Flag ts (fl\<lparr>flagReleasePrerelease := True\<rparr>)"
      by (simp only: parse.simps lookup_switches) simp
    with 3 show ?thesis by (intro exI[of _ "fl\<lparr>flagReleasePrerelease := True\<rparr>"]) simp
  next
    case 4
    have "parse cmdCreateRelease_Flag (''--prerelease'' # ts) fl =
            parse cmdCreateRelease_Flag ts (fl\<lparr>flagReleasePrerelease := True\<rparr>)"
      by (simp only: parse.simps lookup_switches) simp
    with 4 show ?thesis by (intro exI[of _ "fl\<lparr>flagReleasePrerelease := True\<rparr>"]) simp
  qed
qed

lemma parse_valued:
  assumes "k \<in> set [''-m'', ''--message'', ''-f'', ''--file'', ''-c'', ''--commitish'']"
  shows "\<exists>fl1. parse cmdCreateRelease_Flag (k # v # ts) fl = parse cmdCreateRelease_Flag ts fl1 \<and>
               flagReleaseAssets fl1 = flagReleaseAssets fl"
proof -
  from assms consider "k = ''-m''" | "k = ''--message''" | "k = ''-f''" | "k = ''--file''"
    | "k = ''-c''" | "k = ''--commitish''"
    by auto
  then show ?thesis
  proof cases
    case 1
    have "parse cmdCreateRelease_Flag (''-m'' # v # ts) fl =
            parse cmdCreateRelease_Flag ts (fl\<lparr>flagReleaseMessage := v\<rparr>)"
      by (simp only: parse.simps lookup_valued) simp
    with 1 show ?thesis by (intro exI[of _ "fl\<lparr>flagReleaseMessage := v\<rparr>"]) simp
  next
    case 2
    have "parse cmdCreateRelease_Flag (''--message'' # v # ts) fl =
            parse cmdCreateRelease_Flag ts (fl\<lparr>flagReleaseMessage := v\<rparr>)"
      by (simp only: parse.simps lookup_valued) simp
    with 2 show ?thesis by (intro exI[of _ "fl\<lparr>flagReleaseMessage := v\<rparr>"]) simp
  next
    case 3
    have "parse cmdCreateRelease_Flag (''-f'' # v # ts) fl =
            parse cmdCreateRelease_Flag ts (fl\<lparr>flagReleaseFile := v\<rparr>)"
      by (simp only: parse.simps lookup_valued) simp
    with 3 show ?thesis by (intro exI[of _ "fl\<lparr>flagReleaseFile := v\<rparr>"]) simp
  next
    case 4
    have "parse cmdCreateRelease_Flag (''--file'' # v # ts) fl =
            parse cmdCreateRelease_Flag ts (fl\<lparr>flagReleaseFile := v\<rparr>)"
      by (simp only: parse.simps lookup_valued) simp
    with 4 show ?thesis by (intro exI[of _ "fl\<lparr>flagReleaseFile := v\<rparr>"]) simp
  next
    case 5
    have "parse cmdCreateRelease_Flag (''-c'' # v # ts) fl =
            parse cmdCreateRelease_Flag ts (fl\<lparr>flagReleaseCommitish := v\<rparr>)"
      by (simp only: parse.simps lookup_valued) simp
    with 5 show ?thesis by (intro exI[of _ "fl\<lparr>flagReleaseCommitish := v\<rparr>"]) simp
  next
    case 6
    have "parse cmdCreateRelease_Flag (''--commitish'' # v # ts) fl =
            parse cmdCreateRelease_Flag ts (fl\<lparr>flagReleaseCommitish := v\<rparr>)"
      by (simp only: parse.simps lookup_valued) simp
    with 6 show ?thesis by (intro exI[of _ "fl\<lparr>flagReleaseCommitish := v\<rparr>"]) simp
  qed
qed

lemma parse_positional:
  assumes "lookup_flag cmdCreateRelease_Flag t = NotAFlag"
  shows "parse cmdCreateRelease_Flag (t # ts) fl =
           (case parse cmdCreateRelease_Flag ts fl of
              Inl err \<Rightarrow> Inl err
            | Inr (fl', rest) \<Rightarrow> Inr (fl', t # rest))"
  by (simp only: parse.simps assms) simp

lemma parse_items:
  "list_all item_ok items \<Longrightarrow>
   \<exists>fl'. parse cmdCreateRelease_Flag (concat (map item_tokens items)) fl =
            Inr (fl', positionals items) \<and>
          flagReleaseAssets fl' = flagReleaseAssets fl @ attach_values items"
proof (induction items arbitrary: fl)
  case Nil
  show ?case by simp
next
  case (Cons item items)
  from Cons.prems have ok: "item_ok item" and rest: "list_all item_ok items" by simp_all
  let ?ts = "concat (map item_tokens items)"
  show ?case
  proof (cases item)
    case (Attach form v)
    from Cons.IH[OF rest, of "fl\<lparr>flagReleaseAssets := flagReleaseAssets fl @ [v]\<rparr>"]
    obtain fl' where
      "parse cmdCreateRelease_Flag ?ts (fl\<lparr>flagReleaseAssets := flagReleaseAssets fl @ [v]\<rparr>) =
         Inr (fl', positionals items)"
      "flagReleaseAssets fl' = (flagReleaseAssets fl @ [v]) @ attach_values items" by auto
    with Attach parse_attach_tokens[of "(form, v)" ?ts fl] show ?thesis
      by (intro exI[of _ fl']) (simp del: parse.simps attach_tokens.simps)
  next
    case (Positional t)
    with ok have n: "lookup_flag cmdCreateRelease_Flag t = NotAFlag" by simp
    from Cons.IH[OF rest, of fl] obtain fl' where
      "parse cmdCreateRelease_Flag ?ts fl = Inr (fl', positionals items)"
      "flagReleaseAssets fl' = flagReleaseAssets fl @ attach_values items" by auto
    with Positional parse_positional[OF n, of ?ts fl] show ?thesis
      by (intro exI[of _ fl']) (simp del: parse.simps)
  next
    case (Switch t)
    with ok have "t \<in> set [''-d'', ''--draft'', ''-p'', ''--prerelease'']" by simp
    from parse_switch[OF this, of ?ts fl] obtain fl1 where
      s: "parse cmdCreateRelease_Flag (t # ?ts) fl = parse cmdCreateRelease_Flag ?ts fl1"
      and a: "flagReleaseAssets fl1 = flagReleaseAssets fl" by blast
    from Cons.IH[OF rest, of fl1] obtain fl' where
      "parse cmdCreateRelease_Flag ?ts fl1 = Inr (fl', positionals items)"
      "flagReleaseAssets fl' = flagReleaseAssets fl1 @ attach_values items" by auto
    with Switch s a show ?thesis
      by (intro exI[of _ fl']) (simp del: parse.simps)
  next
    case (Valued k v)
    with ok have "k \<in> set [''-m'', ''--message'', ''-f'', ''--file'', ''-c'', ''--commitish'']"
      by simp
    from parse_valued[OF this, of v ?ts fl] obtain fl1 where
      s: "parse cmdCreateRelease_Flag (k # v # ?ts) fl = parse cmdCreateRelease_Flag ?ts fl1"
      and a: "flagReleaseAssets fl1 = flagReleaseAssets fl" by blast
    from Cons.IH[OF rest, of fl1] obtain fl' where
      "parse cmdCreateRelease_Flag ?ts fl1 = Inr (fl', positionals items)"
      "flagReleaseAssets fl' = flagReleaseAssets fl1 @ attach_values items" by auto
    with Valued s a show ?thesis
      by (intro exI[of _ fl']) (simp del: parse.simps)
  qed
qed

lemma asset_parts:
  "(CHR ''#'' \<in> set a \<longrightarrow>
      a = asset_filename a @ ''#'' @ asset_label a \<and> CHR ''#'' \<notin> set (asset_filename a)) \<and>
   (CHR ''#'' \<notin> set a \<longrightarrow> asset_filename a = a \<and> asset_label a = [])"
proof (intro conjI impI)
  assume h: "CHR ''#'' \<in> set a"
  from splitAsset_parts[OF h] obtain f l where
    "splitAsset a = Some (f, l)" "a = f @ ''#'' @ l" "CHR ''#'' \<notin> set f" by blast
  then show "a = asset_filename a @ ''#'' @ asset_label a"
    and "CHR ''#'' \<notin> set (asset_filename a)"
    by (simp_all add: splitAsset_parts_eq)
next
  assume n: "CHR ''#'' \<notin> set a"
  then have tw: "takeWhile (\<lambda>c. c \<noteq> CHR ''#'') a = a"
    and dw: "dropWhile (\<lambda>c. c \<noteq> CHR ''#'') a = []"
    by (auto simp: takeWhile_eq_all_conv)
  show "asset_filename a = a" unfolding asset_filename_def tw ..
  show "asset_label a = []" unfolding asset_label_def dw by simp
qed

text \<open>
  C2. For the release-create command every occurrence of the repeated-string flag
  -a/--attach adds its value to the end of one ordered sequence, wherever it stands
  among the tag name and the other flags, so that the tokens -a f1 -a f2#label give
  the sequence f1, f2#label. The upload step cuts each asset token of that sequence at
  its first "#": the part before it is the file name and the part after it the label;
  without a "#" the whole token is the file name and the label is empty. These two
  parts are what the step names in its descriptions and what it hands to the hosting
  API with every upload.
\<close>

theorem attach_accumulates_and_splits:
  "parse cmdCreateRelease_Flag [''-a'', ''f1'', ''-a'', ''f2#label''] release_flags_default =
     Inr (release_flags_default\<lparr>flagReleaseAssets := [''f1'', ''f2#label'']\<rparr>, []) \<and>
   (list_all item_ok items \<longrightarrow>
      (\<exists>fl'. parse cmdCreateRelease_Flag (concat (map item_tokens items)) fl =
                Inr (fl', positionals items) \<and>
              flagReleaseAssets fl' = flagReleaseAssets fl @ attach_values items)) \<and>
   splitAsset ''f2#label'' = Some (''f2'', ''label'') \<and>
   splitAsset ''f1'' = Some (''f1'', []) \<and>
   splitAsset a = Some (asset_filename a, asset_label a) \<and>
   (CHR ''#'' \<in> set a \<longrightarrow>
      a = asset_filename a @ ''#'' @ asset_label a \<and> CHR ''#'' \<notin> set (asset_filename a)) \<and>
   (CHR ''#'' \<notin> set a \<longrightarrow> asset_filename a = a \<and> asset_label a = []) \<and>
   (Noop args \<longrightarrow>
      uploadAssets e rel assets args w =
        (Inr (), w\<lparr>stderr := stderr w @ map would_attach_line assets\<rparr>)) \<and>
   (\<not> Noop args \<longrightarrow>
    (\<forall>x\<in>set assets. UploadReleaseAsset_result e r (asset_filename x) (asset_label x) = None) \<longrightarrow>
      uploadAssets e (Some r) assets args w =
        (Inr (), w\<lparr>stderr := stderr w @ map attaching_line assets,
                    trace := trace w @ map (\<lambda>x. UploadReleaseAssetC r (asset_filename x)
                                                   (asset_label x)) assets\<rparr>))"
proof -
  have "parse cmdCreateRelease_Flag (concat (map attach_tokens [(0, ''f1''), (0, ''f2#label'')]))
          release_flags_default =
        Inr (release_flags_default\<lparr>flagReleaseAssets :=
               flagReleaseAssets release_flags_default @ map snd [(0::nat, ''f1''), (0, ''f2#label'')]\<rparr>, [])"
    by (rule parse_attach_all)
  then have ex: "parse cmdCreateRelease_Flag [''-a'', ''f1'', ''-a'', ''f2#label''] release_flags_default =
     Inr (release_flags_default\<lparr>flagReleaseAssets := [''f1'', ''f2#label'']\<rparr>, [])"
    by (simp add: release_flags_default_def del: parse.simps)
  have s1: "splitAsset ''f2#label'' = Some (''f2'', ''label'')"
    and s2: "splitAsset ''f1'' = Some (''f1'', [])"
    by (simp_all add: splitAsset_eq)
  show ?thesis
    using ex s1 s2 parse_items[of items fl] splitAsset_parts_eq[of a] asset_parts[of a]
      uploadAssets_noop_lines[of args e rel assets w] uploadAssets_all_ok[of args assets e r w]
    by blast
qed

theorem attach_accumulates_and_splits_witness:
  "list_all item_ok [Switch ''-d'', Attach 1 ''f1'', Positional ''v1.0'', Valued ''-m'' ''Title'',
                     Attach 0 ''f2#label'', Attach 2 ''f3''] \<and>
   CHR ''#'' \<in> set ''f2#label'' \<and> CHR ''#'' \<notin> set ''f1'' \<and>
   Noop \<lparr>Params = [''v1.0''], Noop = True\<rparr> \<and>
   \<not> Noop \<lparr>Params = [''v1.0''], Noop = False\<rparr> \<and>
   (\<exists>fl'. parse cmdCreateRelease_Flag
            [''-d'', ''--attach'', ''f1'', ''v1.0'', ''-m'', ''Title'', ''-a'', ''f2#label'',
             ''--attach=f3''] release_flags_default = Inr (fl', [''v1.0'']) \<and>
          flagReleaseAssets fl' = [''f1'', ''f2#label'', ''f3'']) \<and>
   asset_filename ''f2#label'' = ''f2'' \<and> asset_label ''f2#label'' = ''label'' \<and>
   asset_filename ''f1'' = ''f1'' \<and> asset_label ''f1'' = [] \<and>
   uploadAssets example_env None [''f1'', ''f2#label''] \<lparr>Params = [''v1.0''], Noop = True\<rparr> world0 =
     (Inr (), \<lparr>stdout = [],
               stderr = [''Would attach release asset `f1'\<newline>'',
                         ''Would attach release asset `f2' with label `label'\<newline>''],
               trace = []\<rparr>) \<and>
   uploadAssets example_env (Some (release_params release_flags_default ''v1.0'' ''master'' ''Title'' []))
       [''f1'', ''f2#label''] \<lparr>Params = [''v1.0''], Noop = False\<rparr> world0 =
     (Inr (), \<lparr>stdout = [],
               stderr = [''Attaching release asset `f1'...\<newline>'',
                         ''Attaching release asset `f2'...\<newline>''],
               trace = [UploadReleaseAssetC
                          (release_params release_flags_default ''v1.0'' ''master'' ''Title'' [])
                          ''f1'' [],
                        UploadReleaseAssetC
                          (release_params release_flags_default ''v1.0'' ''master'' ''Title'' [])
                          ''f2'' ''label'']\<rparr>)"
proof -
  let ?items = "[Switch ''-d'', Attach 1 ''f1'', Positional ''v1.0'', Valued ''-m'' ''Title'',
                     Attach 0 ''f2#label'', Attach 2 ''f3'']"
  let ?r = "release_params release_flags_default ''v1.0'' ''master'' ''Title'' []"
  let ?on = "\<lparr>Params = [''v1.0''], Noop = True\<rparr>"
  let ?off = "\<lparr>Params = [''v1.0''], Noop = False\<rparr>"
  have pos: "lookup_flag cmdCreateRelease_Flag ''v1.0'' = NotAFlag"
    by (simp add: lookup_flag_def)
  then have ok: "list_all item_ok ?items" by simp
  have h1: "CHR ''#'' \<in> set ''f2#label''" and h2: "CHR ''#'' \<notin> set ''f1''" by simp_all
  have f: "asset_filename ''f2#label'' = ''f2''" "asset_label ''f2#label'' = ''label''"
    "asset_filename ''f1'' = ''f1''" "asset_label ''f1'' = []"
    by (simp_all add: asset_filename_def asset_label_def)
  have good: "\<forall>x\<in>set [''f1'', ''f2#label''].
      UploadReleaseAsset_result example_env ?r (asset_filename x) (asset_label x) = None"
    by (simp add: f example_env_def)
  have n1: "Noop ?on" and n2: "\<not> Noop ?off" by simp_all
  from attach_accumulates_and_splits[of ?items release_flags_default "''f2#label''" ?on
      example_env None "[''f1'', ''f2#label'']" world0 ?r]
  have p: "list_all item_ok ?items \<longrightarrow>
      (\<exists>fl'. parse cmdCreateRelease_Flag (concat (map item_tokens ?items)) release_flags_default =
                Inr (fl', positionals ?items) \<and>
              flagReleaseAssets fl' = flagReleaseAssets release_flags_default @ attach_values ?items)"
    and u: "Noop ?on \<longrightarrow>
      uploadAssets example_env None [''f1'', ''f2#label''] ?on world0 =
        (Inr (), world0\<lparr>stderr := stderr world0 @ map would_attach_line [''f1'', ''f2#label'']\<rparr>)"
    by blast+
  from attach_accumulates_and_splits[of ?items release_flags_default "''f2#label''" ?off
      example_env None "[''f1'', ''f2#label'']" world0 ?r]
  have v: "\<not> Noop ?off \<longrightarrow>
    (\<forall>x\<in>set [''f1'', ''f2#label''].
        UploadReleaseAsset_result example_env ?r (asset_filename x) (asset_label x) = None) \<longrightarrow>
      uploadAssets example_env (Some ?r) [''f1'', ''f2#label''] ?off world0 =
        (Inr (), world0\<lparr>stderr := stderr world0 @ map attaching_line [''f1'', ''f2#label''],
                    trace := trace world0 @ map (\<lambda>x. UploadReleaseAssetC ?r (asset_filename x)
                                                   (asset_label x)) [''f1'', ''f2#label'']\<rparr>)"
    by blast
  from p ok have "\<exists>fl'. parse cmdCreateRelease_Flag (concat (map item_tokens ?items))
                 release_flags_default = Inr (fl', positionals ?items) \<and>
              flagReleaseAssets fl' = flagReleaseAssets release_flags_default @ attach_values ?items"
    by blast
  then have P: "\<exists>fl'. parse cmdCreateRelease_Flag
            [''-d'', ''--attach'', ''f1'', ''v1.0'', ''-m'', ''Title'', ''-a'', ''f2#label'',
             ''--attach=f3''] release_flags_default = Inr (fl', [''v1.0'']) \<and>
          flagReleaseAssets fl' = [''f1'', ''f2#label'', ''f3'']"
    by (simp add: release_flags_default_def del: parse.simps)
  from u n1 have U: "uploadAssets example_env None [''f1'', ''f2#label''] ?on world0 =
     (Inr (), \<lparr>stdout = [],
               stderr = [''Would attach release asset `f1'\<newline>'',
                         ''Would attach release asset `f2' with label `label'\<newline>''],
               trace = []\<rparr>)"
    by (simp add: world0_def would_attach_line_def f del: uploadAssets.simps)
  from v n2 good have V: "uploadAssets example_env (Some ?r) [''f1'', ''f2#label''] ?off world0 =
     (Inr (), \<lparr>stdout = [],
               stderr = [''Attaching release asset `f1'...\<newline>'',
                         ''Attaching release asset `f2'...\<newline>''],
               trace = [UploadReleaseAssetC ?r ''f1'' [], UploadReleaseAssetC ?r ''f2'' ''label'']\<rparr>)"
    by (simp add: world0_def attaching_line_def f del: uploadAssets.simps)
  from ok h1 h2 n1 n2 P f U V show ?thesis by blast
qed

end
